theory Spec2Isabelle
  imports Main
begin

section \<open>Python strings\<close>

text \<open>
  A Python \<^verbatim>\<open>str\<close> is a sequence of Unicode code points, modelled as a list of
  natural numbers. The step delimiter of the planner is the single code point U+3002
  (the ideographic full stop), which does not fit an 8-bit character.
\<close>

type_synonym pystr = "nat list"

definition ascii :: "string \<Rightarrow> pystr" where
  "ascii s = map of_char s"

text \<open>The code points for which \<^verbatim>\<open>str.strip()\<close> without argument strips.\<close>

definition isspace :: "nat \<Rightarrow> bool" where
  "isspace c \<longleftrightarrow>
     (9 \<le> c \<and> c \<le> 13) \<or> (28 \<le> c \<and> c \<le> 32) \<or> c = 133 \<or> c = 160 \<or> c = 5760 \<or>
     (8192 \<le> c \<and> c \<le> 8202) \<or> c = 8232 \<or> c = 8233 \<or> c = 8239 \<or> c = 8287 \<or> c = 12288"

text \<open>\<^verbatim>\<open>s.strip()\<close> and \<^verbatim>\<open>s.strip(chars)\<close>: both ends are trimmed.\<close>

definition strip_by :: "(nat \<Rightarrow> bool) \<Rightarrow> pystr \<Rightarrow> pystr" where
  "strip_by P s = rev (dropWhile P (rev (dropWhile P s)))"

definition strip :: "pystr \<Rightarrow> pystr" where
  "strip s = strip_by isspace s"

definition strip_chars :: "pystr \<Rightarrow> pystr \<Rightarrow> pystr" where
  "strip_chars chars s = strip_by (\<lambda>c. c \<in> set chars) s"

text \<open>
  \<^verbatim>\<open>s.split(sep)\<close> for a separator of one code point: one more piece than there are
  occurrences of the separator, so the empty string gives one empty piece.
\<close>

fun str_split :: "nat \<Rightarrow> pystr \<Rightarrow> pystr list" where
  "str_split d [] = [[]]"
| "str_split d (c # cs) =
     (if c = d then [] # str_split d cs
      else (case str_split d cs of
              [] \<Rightarrow> [[c]]
            | w # ws \<Rightarrow> (c # w) # ws))"

definition delimiter :: nat where
  "delimiter = 12290"

definition newline :: nat where
  "newline = 10"

definition space :: nat where
  "space = 32"

section \<open>Errors\<close>

text \<open>
  An exception is a value: its class and its message. \<^verbatim>\<open>LLMInvokeError\<close> is the
  class of \<^verbatim>\<open>app.llm.exceptions\<close>; the others are Python's built-in classes.
  \<^verbatim>\<open>External\<close> stands for the classes raised inside the libraries (transport,
  JSON decoding).
\<close>

datatype exc_class =
  LLMInvokeError | ValueError | RuntimeError | KeyError | IndexError | TypeError
  | AttributeError | External pystr

datatype error = Error (error_kind: exc_class) (error_msg: pystr)

section \<open>Planning (app/promt/planning.py)\<close>

record Planning =
  requirement :: pystr
  info_list :: "pystr list"
  plan_steps :: "pystr list"
  current_step_index :: int

definition Planning_init :: "pystr \<Rightarrow> Planning" where
  "Planning_init req =
     \<lparr>requirement = req, info_list = [], plan_steps = [], current_step_index = - 1\<rparr>"

definition add_info :: "pystr \<Rightarrow> Planning \<Rightarrow> Planning" where
  "add_info info p = p\<lparr>info_list := info_list p @ [info]\<rparr>"

definition set_plan_steps :: "pystr list \<Rightarrow> Planning \<Rightarrow> Planning" where
  "set_plan_steps steps p =
     p\<lparr>plan_steps := steps, current_step_index := (if steps \<noteq> [] then 0 else - 1)\<rparr>"

text \<open>
  \<^verbatim>\<open>[step.strip(" \<dots>\n") for step in plan_text.split("\<dots>") if step.strip()]\<close>
  where the dots are the delimiter: the filter uses the whitespace strip, the kept
  pieces are trimmed of space, delimiter and newline only.
\<close>

definition steps_from_text :: "pystr \<Rightarrow> pystr list" where
  "steps_from_text plan_text =
     map (strip_chars [space, delimiter, newline])
       (filter (\<lambda>step. strip step \<noteq> []) (str_split delimiter plan_text))"

definition set_plan_steps_from_text :: "pystr \<Rightarrow> Planning \<Rightarrow> Planning" where
  "set_plan_steps_from_text plan_text p = set_plan_steps (steps_from_text plan_text) p"

definition index_error_msg :: pystr where
  "index_error_msg = [35745, 21010, 27493, 39588, 32034, 24341, 36229, 20986, 33539, 22260]"

definition update_plan_step :: "int \<Rightarrow> pystr \<Rightarrow> Planning \<Rightarrow> error + Planning" where
  "update_plan_step index step p =
     (if 0 \<le> index \<and> index < int (length (plan_steps p))
      then Inr (p\<lparr>plan_steps := (plan_steps p)[nat index := step]\<rparr>)
      else Inl (Error IndexError index_error_msg))"

definition get_current_step :: "Planning \<Rightarrow> pystr option" where
  "get_current_step p =
     (if 0 \<le> current_step_index p \<and> current_step_index p < int (length (plan_steps p))
      then Some (plan_steps p ! nat (current_step_index p))
      else None)"

definition advance_step :: "Planning \<Rightarrow> bool \<times> Planning" where
  "advance_step p =
     (if current_step_index p + 1 < int (length (plan_steps p))
      then (True, p\<lparr>current_step_index := current_step_index p + 1\<rparr>)
      else (False, p))"

text \<open>
  \<^verbatim>\<open>__str__\<close>: the requirement, the observations (or a placeholder line) and the
  current step (or a placeholder, also for an empty step, by Python's \<^verbatim>\<open>or\<close>). The
  step list itself is computed by the source but not part of the returned text.
\<close>

definition requirement_label :: pystr where
  "requirement_label = [29992, 25143, 38656, 27714, 65306]"

definition info_label :: pystr where
  "info_label = [24050, 26377, 20449, 24687, 65306, 10]"

definition none_line :: pystr where
  "none_line = [32, 32, 32, 65288, 26080, 65289, 10]"

definition item_prefix :: pystr where
  "item_prefix = [32, 32, 32, 45, 32]"

definition next_label :: pystr where
  "next_label = [19979, 19968, 27493, 25805, 20316, 65306]"

definition unset_label :: pystr where
  "unset_label = [65288, 26410, 35774, 32622, 65289]"

definition Planning_str :: "Planning \<Rightarrow> pystr" where
  "Planning_str p =
     requirement_label @ requirement p @ [newline] @ info_label
     @ (if info_list p \<noteq> []
        then concat (map (\<lambda>item. item_prefix @ item @ [newline]) (info_list p))
        else none_line)
     @ next_label
     @ (case get_current_step p of
          None \<Rightarrow> unset_label
        | Some current_step \<Rightarrow> if current_step \<noteq> [] then current_step else unset_label)"

text \<open>
  The operations of the class that change a Planning object, as data, so that
  statements can range over every sequence of calls. A call that raises leaves the
  object as it was.
\<close>

datatype planning_op =
  AddInfo pystr
  | SetPlanSteps "pystr list"
  | SetPlanStepsFromText pystr
  | UpdatePlanStep int pystr
  | AdvanceStep

fun apply_op :: "planning_op \<Rightarrow> Planning \<Rightarrow> Planning" where
  "apply_op (AddInfo info) p = add_info info p"
| "apply_op (SetPlanSteps steps) p = set_plan_steps steps p"
| "apply_op (SetPlanStepsFromText plan_text) p = set_plan_steps_from_text plan_text p"
| "apply_op (UpdatePlanStep index step) p =
     (case update_plan_step index step p of Inl e \<Rightarrow> p | Inr p' \<Rightarrow> p')"
| "apply_op AdvanceStep p = snd (advance_step p)"

fun apply_ops :: "planning_op list \<Rightarrow> Planning \<Rightarrow> Planning" where
  "apply_ops [] p = p"
| "apply_ops (op # ops) p = apply_ops ops (apply_op op p)"

fun resets_plan :: "planning_op \<Rightarrow> bool" where
  "resets_plan (SetPlanSteps steps) = True"
| "resets_plan (SetPlanStepsFromText plan_text) = True"
| "resets_plan other = False"

definition cursor_inv :: "Planning \<Rightarrow> bool" where
  "cursor_inv p \<longleftrightarrow>
     (0 \<le> current_step_index p \<longrightarrow> current_step_index p < int (length (plan_steps p)))"

section \<open>Python values and tool descriptors (app/utils/tools.py)\<close>

text \<open>
  The dictionaries exchanged with the model endpoint and cached by the tool client are
  plain Python values; a dictionary is an association list from string keys.
\<close>

datatype pyval =
  PNone | PBool bool | PInt int | PStr pystr | PList "pyval list"
  | PDict "(pystr \<times> pyval) list"

text \<open>\<^verbatim>\<open>str(KeyError(k))\<close> is the key in quotes.\<close>

definition key_error :: "pystr \<Rightarrow> error" where
  "key_error k = Error KeyError ([39] @ k @ [39])"

text \<open>
  \<^verbatim>\<open>d[k]\<close> for a string key: a dictionary without the key raises \<^verbatim>\<open>KeyError\<close>, a
  value of another type raises \<^verbatim>\<open>TypeError\<close> (its message depends on the type and is
  left empty here).
\<close>

fun getitem :: "pyval \<Rightarrow> pystr \<Rightarrow> error + pyval" where
  "getitem (PDict kvs) k = (case map_of kvs k of Some v \<Rightarrow> Inr v | None \<Rightarrow> Inl (key_error k))"
| "getitem other k = Inl (Error TypeError [])"

text \<open>\<^verbatim>\<open>d.get(k, default)\<close>: only a dictionary has the method.\<close>

fun dict_get :: "pyval \<Rightarrow> pystr \<Rightarrow> pyval \<Rightarrow> error + pyval" where
  "dict_get (PDict kvs) k dflt = (case map_of kvs k of Some v \<Rightarrow> Inr v | None \<Rightarrow> Inr dflt)"
| "dict_get other k dflt = Inl (Error AttributeError [])"

text \<open>The tool descriptor of the MCP library: \<^verbatim>\<open>description\<close> is optional there.\<close>

record Tool =
  name :: pystr
  description :: "pystr option"
  inputSchema :: pyval

definition opt_str :: "pystr option \<Rightarrow> pyval" where
  "opt_str d = (case d of None \<Rightarrow> PNone | Some s \<Rightarrow> PStr s)"

definition convert_tool_to_openai_param :: "Tool \<Rightarrow> pyval" where
  "convert_tool_to_openai_param tool =
     PDict [(ascii ''type'', PStr (ascii ''function'')),
            (ascii ''function'',
             PDict [(ascii ''name'', PStr (name tool)),
                    (ascii ''description'', opt_str (description tool)),
                    (ascii ''parameters'', inputSchema tool)])]"

definition convert_tools_to_openai_params :: "Tool list \<Rightarrow> pyval list" where
  "convert_tools_to_openai_params tools = map convert_tool_to_openai_param tools"

text \<open>
  Reading a wire record back, for the round-trip statement. This function is not in
  the source: it reads the three fields where the conversion puts them.
\<close>

definition openai_param_to_tool :: "pyval \<Rightarrow> Tool option" where
  "openai_param_to_tool param =
     (case getitem param (ascii ''function'') of
        Inl e \<Rightarrow> None
      | Inr func \<Rightarrow>
          (case (getitem func (ascii ''name''), getitem func (ascii ''description''),
                 getitem func (ascii ''parameters'')) of
             (Inr (PStr n), Inr (PStr d), Inr schema) \<Rightarrow>
               Some \<lparr>name = n, description = Some d, inputSchema = schema\<rparr>
           | (Inr (PStr n), Inr PNone, Inr schema) \<Rightarrow>
               Some \<lparr>name = n, description = None, inputSchema = schema\<rparr>
           | other \<Rightarrow> None))"

section \<open>The environment: model endpoint, tool session, library functions\<close>

text \<open>
  The agent reads a completion only through \<^verbatim>\<open>choices[-1]\<close>: its message content,
  its finish reason and its tool calls, each a pair of function name and argument text.
\<close>

record response =
  content :: pystr
  finish_reason :: pystr
  tool_calls :: "(pystr \<times> pystr) list"

text \<open>
  What the program does not define is a parameter: the model endpoint, the SSE tool
  session, \<^verbatim>\<open>json.loads\<close> and \<^verbatim>\<open>str\<close> on foreign values. The external parties
  have a state of their own, \<open>'w\<close>, and may answer the same request differently each
  time. A failed request of the model endpoint is given by the text of its exception.
\<close>

record ('w, 'r) env =
  chat_completions_create ::
    "(pystr \<times> pystr) list \<Rightarrow> pyval list option \<Rightarrow> 'w \<Rightarrow> (pystr + response) \<times> 'w"
  sse_connect :: "'w \<Rightarrow> (error + unit) \<times> 'w"
  session_initialize :: "'w \<Rightarrow> (error + unit) \<times> 'w"
  session_list_tools :: "'w \<Rightarrow> (error + Tool list) \<times> 'w"
  session_call_tool :: "pystr \<Rightarrow> pyval \<Rightarrow> 'w \<Rightarrow> (error + 'r) \<times> 'w"
  json_loads :: "pystr \<Rightarrow> error + pyval"
  str_of_result :: "'r \<Rightarrow> pystr"
  str_of_value :: "pyval \<Rightarrow> pystr"

text \<open>
  What a run does, in order: the strings it yields and the requests it sends to the
  model endpoint and to the tool session.
\<close>

datatype action =
  Yield pystr
  | LLMRequest "(pystr \<times> pystr) list" "pyval list option"
  | SessionOpen
  | SessionInitialize
  | SessionClose
  | SessionListTools
  | SessionCallTool pystr pyval

text \<open>The tool client: whether \<^verbatim>\<open>self.session\<close> is set, and \<^verbatim>\<open>self._tools\<close>.\<close>

record GaoDeMCPClient =
  session :: bool
  tools_cache :: "pyval list"

definition GaoDeMCPClient_init :: GaoDeMCPClient where
  "GaoDeMCPClient_init = \<lparr>session = False, tools_cache = []\<rparr>"

text \<open>
  The state of a run: what it has done so far, its plan, its tool client, the state of
  the external parties, and the number of rounds it has begun.
\<close>

record 'w agent_state =
  trace :: "action list"
  planning :: Planning
  client :: GaoDeMCPClient
  world :: 'w
  rounds :: nat

definition emit :: "action \<Rightarrow> 'w agent_state \<Rightarrow> 'w agent_state" where
  "emit a s = s\<lparr>trace := trace s @ [a]\<rparr>"

section \<open>LLMClient.call (app/llm/client.py)\<close>

definition model_call_error_prefix :: pystr where
  "model_call_error_prefix = [27169, 22411, 35843, 29992, 24322, 24120, 65306]"

text \<open>
  The configuration of the text model passes \<^verbatim>\<open>validate_config\<close> (its temperature is
  0.7, inside the range), and the client object is built from the configured key. Every
  exception of the request is raised again as \<^verbatim>\<open>LLMInvokeError\<close> with the prefixed
  message; the request is recorded in the trace.
\<close>

definition llm_call ::
  "('w, 'r) env \<Rightarrow> (pystr \<times> pystr) list \<Rightarrow> pyval list option \<Rightarrow> 'w agent_state
     \<Rightarrow> (error + response) \<times> 'w agent_state" where
  "llm_call env messages tools s =
     (let s1 = emit (LLMRequest messages tools) s in
      case chat_completions_create env messages tools (world s1) of
        (Inl e, w') \<Rightarrow>
          (Inl (Error LLMInvokeError (model_call_error_prefix @ e)), s1\<lparr>world := w'\<rparr>)
      | (Inr r, w') \<Rightarrow> (Inr r, s1\<lparr>world := w'\<rparr>))"

section \<open>GaoDeMCPClient (app/mcp/gaode_mcp.py)\<close>

definition not_connected_msg :: pystr where
  "not_connected_msg =
     [35831, 20808, 22312, 32, 99, 111, 110, 110, 101, 99, 116, 40, 41, 32, 20013, 20351,
      29992, 32, 77, 67, 80, 67, 108, 105, 101, 110, 116]"

definition unregistered_msg :: "pystr \<Rightarrow> pystr" where
  "unregistered_msg tool_name =
     [24037, 20855, 32, 39] @ tool_name @ [39, 32, 26410, 27880, 20876, 25110, 19981, 21487, 29992]"

text \<open>
  Entering \<^verbatim>\<open>connect()\<close>: the SSE connection is opened, the session is stored, then
  initialised. Leaving it closes the connection; \<^verbatim>\<open>self.session = None\<close> runs only
  when the body ended without an exception.
\<close>

definition connect ::
  "('w, 'r) env \<Rightarrow> 'w agent_state \<Rightarrow> (error + unit) \<times> 'w agent_state" where
  "connect env s =
     (let s1 = emit SessionOpen s in
      case sse_connect env (world s1) of
        (Inl e, w1) \<Rightarrow> (Inl e, s1\<lparr>world := w1\<rparr>)
      | (Inr u, w1) \<Rightarrow>
          (let s2 = emit SessionInitialize
                      (s1\<lparr>world := w1, client := (client s1)\<lparr>session := True\<rparr>\<rparr>) in
           case session_initialize env (world s2) of
             (Inl e, w2) \<Rightarrow> (Inl e, emit SessionClose (s2\<lparr>world := w2\<rparr>))
           | (Inr u', w2) \<Rightarrow> (Inr (), s2\<lparr>world := w2\<rparr>)))"

definition disconnect :: "bool \<Rightarrow> 'w agent_state \<Rightarrow> 'w agent_state" where
  "disconnect raised s =
     emit SessionClose
       (if raised then s else s\<lparr>client := (client s)\<lparr>session := False\<rparr>\<rparr>)"

definition list_tools ::
  "('w, 'r) env \<Rightarrow> 'w agent_state \<Rightarrow> (error + pyval list) \<times> 'w agent_state" where
  "list_tools env s =
     (if \<not> session (client s) then (Inl (Error RuntimeError not_connected_msg), s)
      else
        (let s1 = emit SessionListTools s in
         case session_list_tools env (world s1) of
           (Inl e, w') \<Rightarrow> (Inl e, s1\<lparr>world := w'\<rparr>)
         | (Inr raw_tools, w') \<Rightarrow>
             (let converted = convert_tools_to_openai_params raw_tools in
              (Inr converted,
               s1\<lparr>world := w', client := (client s1)\<lparr>tools_cache := converted\<rparr>\<rparr>))))"

text \<open>\<^verbatim>\<open>[tool["name"] for tool in self._tools]\<close>: the first failing lookup raises.\<close>

fun registered_names :: "pyval list \<Rightarrow> error + pyval list" where
  "registered_names [] = Inr []"
| "registered_names (tool # rest) =
     (case getitem tool (ascii ''name'') of
        Inl e \<Rightarrow> Inl e
      | Inr n \<Rightarrow> (case registered_names rest of Inl e \<Rightarrow> Inl e | Inr ns \<Rightarrow> Inr (n # ns)))"

definition call_tool ::
  "('w, 'r) env \<Rightarrow> pystr \<Rightarrow> pyval \<Rightarrow> 'w agent_state \<Rightarrow> (error + 'r) \<times> 'w agent_state" where
  "call_tool env tool_name params s =
     (if \<not> session (client s) then (Inl (Error RuntimeError not_connected_msg), s)
      else
        (case (if tools_cache (client s) = [] then list_tools env s
               else (Inr (tools_cache (client s)), s)) of
           (Inl e, s1) \<Rightarrow> (Inl e, s1)
         | (Inr fetched, s1) \<Rightarrow>
             (case registered_names (tools_cache (client s1)) of
                Inl e \<Rightarrow> (Inl e, s1)
              | Inr names \<Rightarrow>
                  if PStr tool_name \<notin> set names
                  then (Inl (Error ValueError (unregistered_msg tool_name)), s1)
                  else
                    (let s2 = emit (SessionCallTool tool_name params) s1 in
                     case session_call_tool env tool_name params (world s2) of
                       (Inl e, w') \<Rightarrow> (Inl e, s2\<lparr>world := w'\<rparr>)
                     | (Inr r, w') \<Rightarrow> (Inr r, s2\<lparr>world := w'\<rparr>)))))"

section \<open>MCPAgent (app/agent/MCPAgent.py)\<close>

definition max_rounds :: nat where
  "max_rounds = 6"

definition role_system :: pystr where
  "role_system = ascii ''system''"

definition role_user :: pystr where
  "role_user = ascii ''user''"

definition reason_tool_calls :: pystr where
  "reason_tool_calls = ascii ''tool_calls''"

definition prompt_intro :: pystr where
  "prompt_intro =
     [20320, 26159, 19968, 20010, 21161, 25163, 65292, 26681, 25454, 29992, 25143, 24050,
     26377, 30340, 20449, 24687, 21644, 21487, 29992, 24037, 20855, 65292, 21046, 23450,
     20986, 19968, 31995, 21015, 21487, 25191, 34892, 30340, 27493, 39588, 12290, 65288,
     22914, 26524, 24037, 20855, 38656, 35201, 30340, 20449, 24687, 32570, 22833, 23601,
     19981, 35201, 21152, 21040, 27493, 39588, 20013, 65289, 27599, 19968, 27493, 37117,
     24212, 26159, 35843, 29992, 24037, 20855, 21487, 20197, 23436, 25104, 30340, 20855,
     20307, 25805, 20316, 65292, 27599, 19968, 20010, 27493, 20013, 21482, 33021, 26377,
     19968, 20010, 24037, 20855, 65292, 27493, 39588, 24212, 28165, 26224, 20855, 20307,
     65292, 36923, 36753, 21512, 29702, 12290, 20351, 29992, 33521, 25991, 36887, 21495,
     32, 96, 12290, 96, 32, 20998, 38548, 27599, 20010, 27493, 39588, 65292,
     19981, 35201, 25442, 34892, 65292, 26368, 22810, 51, 27493, 12290, 29992, 20013,
     25991, 22238, 22797, 12290, 10, 10, 24403, 21069, 21487, 29992, 30340, 24037,
     20855, 22914, 19979, 65306, 10]"

definition format_value :: "('w, 'r) env \<Rightarrow> pyval \<Rightarrow> pystr" where
  "format_value env v = (case v of PStr s \<Rightarrow> s | other \<Rightarrow> str_of_value env other)"

text \<open>One line per tool; the lines are joined by newlines after the introduction.\<close>

definition tool_description ::
  "('w, 'r) env \<Rightarrow> pyval \<Rightarrow> error + pystr" where
  "tool_description env tool =
     (case dict_get tool (ascii ''function'') (PDict []) of
        Inl e \<Rightarrow> Inl e
      | Inr func \<Rightarrow>
          (case dict_get func (ascii ''name'') (PStr (ascii ''unknown_tool'')) of
             Inl e \<Rightarrow> Inl e
           | Inr n \<Rightarrow>
               (case dict_get func (ascii ''description'')
                       (PStr [65288, 26080, 25551, 36848, 65289]) of
                  Inl e \<Rightarrow> Inl e
                | Inr desc \<Rightarrow>
                    Inr (ascii ''- '' @ format_value env n @ [65306]
                         @ format_value env desc @ [65307]))))"

fun tool_descriptions :: "('w, 'r) env \<Rightarrow> pyval list \<Rightarrow> error + pystr list" where
  "tool_descriptions env [] = Inr []"
| "tool_descriptions env (tool # rest) =
     (case tool_description env tool of
        Inl e \<Rightarrow> Inl e
      | Inr line \<Rightarrow>
          (case tool_descriptions env rest of Inl e \<Rightarrow> Inl e | Inr ls \<Rightarrow> Inr (line # ls)))"

fun join_lines :: "pystr list \<Rightarrow> pystr" where
  "join_lines [] = []"
| "join_lines [l] = l"
| "join_lines (l # m # ls) = l @ [newline] @ join_lines (m # ls)"

definition build_system_prompt_with_tools ::
  "('w, 'r) env \<Rightarrow> pyval list \<Rightarrow> error + pystr" where
  "build_system_prompt_with_tools env tools =
     (case tool_descriptions env tools of
        Inl e \<Rightarrow> Inl e
      | Inr ls \<Rightarrow> Inr (prompt_intro @ join_lines ls))"

definition plan_header :: pystr where
  "plan_header = replicate 10 45 @ [24403, 21069, 35745, 21010] @ replicate 10 45"

definition separator :: pystr where
  "separator = replicate 27 45"

definition tool_event :: "pystr \<Rightarrow> pystr \<Rightarrow> pystr" where
  "tool_event function_name function_args =
     [35843, 29992, 24037, 20855, 58, 32] @ function_name
     @ [44, 32, 21442, 25968, 58, 32] @ function_args"

definition summary_request :: "pystr \<Rightarrow> pystr" where
  "summary_request tool_wait =
     [24037, 20855, 35843, 29992, 32467, 26524, 58, 32] @ tool_wait
     @ [44, 25972, 21512, 25968, 25454, 20449, 24687]"

definition no_next_step_msg :: pystr where
  "no_next_step_msg =
     [27809, 26377, 19979, 19968, 27493, 20102, 65292, 30452, 25509, 36755, 20986, 32467, 26524]"

definition final_request :: "pystr \<Rightarrow> pystr" where
  "final_request plan_text =
     [26681, 25454, 20197, 19979, 20449, 24687, 32473, 20986, 26368, 32456, 32467, 26524, 58, 10]
     @ plan_text"

definition final_answer_event :: "pystr \<Rightarrow> pystr" where
  "final_answer_event final_answer = [26368, 32456, 31572, 26696, 65306] @ final_answer"

definition exhausted_msg :: pystr where
  "exhausted_msg =
     [36229, 36807, 26368, 22823, 36718, 25968, 20173, 26410, 24471, 21040, 26368, 32456,
      31572, 26696, 12290]"

text \<open>\<^verbatim>\<open>str(current_step)\<close> of an optional string.\<close>

definition str_of_step :: "pystr option \<Rightarrow> pystr" where
  "str_of_step current_step = (case current_step of None \<Rightarrow> ascii ''None'' | Some st \<Rightarrow> st)"

text \<open>
  The loop over the tool calls of one reply: the event, the parsed arguments, the
  tool, the summary by the model, the observation. Any failure ends the run.
\<close>

fun tool_calls_loop ::
  "('w, 'r) env \<Rightarrow> (pystr \<times> pystr) list \<Rightarrow> 'w agent_state
     \<Rightarrow> (error + unit) \<times> 'w agent_state" where
  "tool_calls_loop env [] s = (Inr (), s)"
| "tool_calls_loop env ((function_name, function_args) # rest) s =
     (let s1 = emit (Yield (tool_event function_name function_args)) s in
      case json_loads env function_args of
        Inl e \<Rightarrow> (Inl e, s1)
      | Inr args \<Rightarrow>
          (case call_tool env function_name args s1 of
             (Inl e, s2) \<Rightarrow> (Inl e, s2)
           | (Inr tool_wait, s2) \<Rightarrow>
               (case llm_call env
                       [(role_user, summary_request (str_of_result env tool_wait))] None s2 of
                  (Inl e, s3) \<Rightarrow> (Inl e, s3)
                | (Inr tool_result, s3) \<Rightarrow>
                    tool_calls_loop env rest
                      (s3\<lparr>planning := add_info (content tool_result) (planning s3)\<rparr>))))"

text \<open>How one round ends: with an exception, with a next round, or with the answer.\<close>

datatype round_result = Raised error | Continue | Final pystr

text \<open>The part of a round after the model has replied.\<close>

definition after_reply ::
  "('w, 'r) env \<Rightarrow> response \<Rightarrow> 'w agent_state \<Rightarrow> round_result \<times> 'w agent_state" where
  "after_reply env result s =
     (case (if finish_reason result = reason_tool_calls
            then tool_calls_loop env (tool_calls result) s
            else (Inr (), s)) of
        (Inl e, s1) \<Rightarrow> (Raised e, s1)
      | (Inr u, s1) \<Rightarrow>
          (case advance_step (planning s1) of
             (True, p') \<Rightarrow> (Continue, s1\<lparr>planning := p'\<rparr>)
           | (False, p') \<Rightarrow>
               (let s2 = emit (Yield no_next_step_msg) (s1\<lparr>planning := p'\<rparr>) in
                case llm_call env
                       [(role_user, final_request (Planning_str (planning s2)))] None s2 of
                  (Inl e, s3) \<Rightarrow> (Raised e, s3)
                | (Inr answer, s3) \<Rightarrow> (Final (content answer), s3))))"

definition run_round ::
  "('w, 'r) env \<Rightarrow> pyval list \<Rightarrow> 'w agent_state \<Rightarrow> round_result \<times> 'w agent_state" where
  "run_round env tools s =
     (let s1 = emit (Yield separator) (s\<lparr>rounds := Suc (rounds s)\<rparr>);
          current_step = get_current_step (planning s1);
          s2 = emit (Yield (str_of_step current_step)) s1 in
      case llm_call env [(role_user, Planning_str (planning s2))] (Some tools) s2 of
        (Inl e, s3) \<Rightarrow> (Raised e, s3)
      | (Inr result, s3) \<Rightarrow> after_reply env result s3)"

text \<open>
  \<^verbatim>\<open>for _ in range(max_rounds)\<close>: the argument counts the rounds that are left. When
  none is left the loop ends with \<^verbatim>\<open>final_answer\<close> still empty.
\<close>

fun rounds_loop ::
  "('w, 'r) env \<Rightarrow> pyval list \<Rightarrow> nat \<Rightarrow> 'w agent_state \<Rightarrow> (error + pystr) \<times> 'w agent_state" where
  "rounds_loop env tools 0 s = (Inr [], s)"
| "rounds_loop env tools (Suc n) s =
     (case run_round env tools s of
        (Raised e, s1) \<Rightarrow> (Inl e, s1)
      | (Final final_answer, s1) \<Rightarrow> (Inr final_answer, s1)
      | (Continue, s1) \<Rightarrow> rounds_loop env tools n s1)"

definition run_init :: "pystr \<Rightarrow> 'w \<Rightarrow> 'w agent_state" where
  "run_init user_input w =
     \<lparr>trace = [], planning = Planning_init user_input, client = GaoDeMCPClient_init,
      world = w, rounds = 0\<rparr>"

text \<open>
  A run: the plan, the connection, the rounds, and the check of the answer. The result
  is the exception that ended the run, if any, and the final state with the trace; the
  answer is the last string yielded.
\<close>

definition run ::
  "('w, 'r) env \<Rightarrow> pyval list \<Rightarrow> pystr \<Rightarrow> 'w \<Rightarrow> (error + unit) \<times> 'w agent_state" where
  "run env tools user_input w =
     (let s0 = run_init user_input w in
      case build_system_prompt_with_tools env tools of
        Inl e \<Rightarrow> (Inl e, s0)
      | Inr planning_prompt \<Rightarrow>
          (case llm_call env [(role_system, planning_prompt), (role_user, user_input)] None s0 of
             (Inl e, s1) \<Rightarrow> (Inl e, s1)
           | (Inr planning_result, s1) \<Rightarrow>
               (let s2 = s1\<lparr>planning :=
                             set_plan_steps_from_text (content planning_result) (planning s1)\<rparr>;
                    s3 = emit (Yield separator)
                           (emit (Yield (Planning_str (planning s2)))
                              (emit (Yield plan_header) s2)) in
                case connect env s3 of
                  (Inl e, s4) \<Rightarrow> (Inl e, s4)
                | (Inr u, s4) \<Rightarrow>
                    (case rounds_loop env tools max_rounds s4 of
                       (Inl e, s5) \<Rightarrow> (Inl e, disconnect True s5)
                     | (Inr final_answer, s5) \<Rightarrow>
                         (let s6 = disconnect False s5 in
                          if final_answer = []
                          then (Inl (Error LLMInvokeError exhausted_msg), s6)
                          else (Inr (), emit (Yield (final_answer_event final_answer)) s6))))))"

section \<open>Notions used in the statements\<close>

text \<open>The tool invocations of a trace, and the strings it yields, each in order.\<close>

fun tool_invocations :: "action list \<Rightarrow> (pystr \<times> pyval) list" where
  "tool_invocations [] = []"
| "tool_invocations (SessionCallTool tool_name params # as) =
     (tool_name, params) # tool_invocations as"
| "tool_invocations (a # as) = tool_invocations as"

fun yields :: "action list \<Rightarrow> pystr list" where
  "yields [] = []"
| "yields (Yield line # as) = line # yields as"
| "yields (a # as) = yields as"

text \<open>
  An environment whose model endpoint answers every request, and never with tool calls
  to carry out; and one whose tool session can always be opened.
\<close>

definition replies_without_tool_request :: "('w, 'r) env \<Rightarrow> bool" where
  "replies_without_tool_request env \<longleftrightarrow>
     (\<forall>messages tools w. \<exists>r w'.
        chat_completions_create env messages tools w = (Inr r, w')
        \<and> (finish_reason r = reason_tool_calls \<longrightarrow> tool_calls r = []))"

definition session_opens :: "('w, 'r) env \<Rightarrow> bool" where
  "session_opens env \<longleftrightarrow>
     (\<forall>w. (\<exists>w'. sse_connect env w = (Inr (), w'))
        \<and> (\<exists>w'. session_initialize env w = (Inr (), w')))"

text \<open>
  Two plans that differ by appended observations only, and two that differ by appended
  observations and a cursor that moved forward.
\<close>

definition same_plan :: "Planning \<Rightarrow> Planning \<Rightarrow> bool" where
  "same_plan p p' \<longleftrightarrow>
     requirement p' = requirement p \<and> plan_steps p' = plan_steps p
     \<and> current_step_index p' = current_step_index p
     \<and> (\<exists>more. info_list p' = info_list p @ more)"

definition grown_plan :: "Planning \<Rightarrow> Planning \<Rightarrow> bool" where
  "grown_plan p p' \<longleftrightarrow>
     requirement p' = requirement p \<and> plan_steps p' = plan_steps p
     \<and> current_step_index p \<le> current_step_index p'
     \<and> (\<exists>more. info_list p' = info_list p @ more)"

section \<open>Concrete inputs\<close>

text \<open>A plan of two steps, and a state of the agent that holds it.\<close>

definition two_steps :: Planning where
  "two_steps = set_plan_steps [[97], [98]] (Planning_init [])"

definition two_steps_state :: "unit agent_state" where
  "two_steps_state = (run_init [] ())\<lparr>planning := two_steps\<rparr>"

text \<open>A reply in plain text, and a reply that asks for tools.\<close>

definition plain_reply :: "pystr \<Rightarrow> response" where
  "plain_reply answer = \<lparr>content = answer, finish_reason = ascii ''stop'', tool_calls = []\<rparr>"

definition tool_reply :: "(pystr \<times> pystr) list \<Rightarrow> response" where
  "tool_reply calls = \<lparr>content = [], finish_reason = ascii ''tool_calls'', tool_calls = calls\<rparr>"

text \<open>
  An environment without state of its own: the model answers the request of the plan
  (two messages, no tools), the request of a round (tools on offer) and every other
  request with a fixed reply or a fixed failure; the session opens and lists a fixed
  catalog.
\<close>

definition scripted_env ::
  "(pystr + response) \<Rightarrow> (pystr + response) \<Rightarrow> (pystr + response) \<Rightarrow> Tool list
     \<Rightarrow> (pystr \<Rightarrow> error + pyval) \<Rightarrow> (unit, unit) env" where
  "scripted_env plan_reply round_reply other_reply catalog loads =
     \<lparr>chat_completions_create =
        (\<lambda>messages tools w.
           ((case tools of
               Some offered \<Rightarrow> round_reply
             | None \<Rightarrow> if length messages = 2 then plan_reply else other_reply), w)),
      sse_connect = (\<lambda>w. (Inr (), w)),
      session_initialize = (\<lambda>w. (Inr (), w)),
      session_list_tools = (\<lambda>w. (Inr catalog, w)),
      session_call_tool = (\<lambda>tool_name params w. (Inr (), w)),
      json_loads = loads,
      str_of_result = (\<lambda>r. []),
      str_of_value = (\<lambda>v. [])\<rparr>"

text \<open>
  Two descriptors as the session lists them, the argument texts of two tool calls
  (a city, an address), and what \<^verbatim>\<open>json.loads\<close> gives for them.
\<close>

definition weather_tool :: Tool where
  "weather_tool =
     \<lparr>name = ascii ''maps_weather'',
      description = Some (ascii ''weather of a city''),
      inputSchema =
        PDict [(ascii ''type'', PStr (ascii ''object'')),
               (ascii ''properties'',
                PDict [(ascii ''city'', PDict [(ascii ''type'', PStr (ascii ''string''))])]),
               (ascii ''required'', PList [PStr (ascii ''city'')])]\<rparr>"

definition geo_tool :: Tool where
  "geo_tool =
     \<lparr>name = ascii ''maps_geo'', description = None,
      inputSchema =
        PDict [(ascii ''type'', PStr (ascii ''object'')),
               (ascii ''properties'',
                PDict [(ascii ''address'', PDict [(ascii ''type'', PStr (ascii ''string''))])]),
               (ascii ''required'', PList [PStr (ascii ''address'')])]\<rparr>"

definition weather_args :: pystr where
  "weather_args = [123, 34, 99, 105, 116, 121, 34, 58, 32, 34, 19978, 28023, 34, 125]"

definition geo_args :: pystr where
  "geo_args = [123, 34, 97, 100, 100, 114, 101, 115, 115, 34, 58, 32, 34, 19990, 21338, 22253, 34, 125]"

definition loads_demo :: "pystr \<Rightarrow> error + pyval" where
  "loads_demo s =
     (if s = weather_args then Inr (PDict [(ascii ''city'', PStr [19978, 28023])])
      else if s = geo_args then Inr (PDict [(ascii ''address'', PStr [19990, 21338, 22253])])
      else Inl (Error (External (ascii ''JSONDecodeError'')) []))"

text \<open>The plan text of scenario A, and a plan text of seven steps.\<close>

definition scenario_A_text :: pystr where
  "scenario_A_text = [26597, 22825, 27668, 12290, 26597, 26223, 28857, 12290]"

definition seven_steps_text :: pystr where
  "seven_steps_text = [97, 12290, 98, 12290, 99, 12290, 100, 12290, 101, 12290, 102, 12290, 103]"

text \<open>
  Runs: a plan of seven steps with a model that never asks for a tool; a model endpoint
  that times out; a blank plan text with plain replies; an empty plan text with a
  request for the weather tool while the session lists no tool, and while it lists that
  tool; scenario C, one request
  for the weather tool, which the session lists; and a reply with two requests for two
  listed tools.
\<close>

definition env_never_done :: "(unit, unit) env" where
  "env_never_done =
     scripted_env (Inr (plain_reply seven_steps_text)) (Inr (plain_reply [111, 107]))
       (Inr (plain_reply [111, 107])) [] (\<lambda>arguments. Inr (PDict []))"

definition env_model_down :: "(unit, unit) env" where
  "env_model_down =
     scripted_env (Inl (ascii ''timeout'')) (Inl (ascii ''timeout'')) (Inl (ascii ''timeout''))
       [] (\<lambda>arguments. Inr (PDict []))"

definition env_empty_plan :: "(unit, unit) env" where
  "env_empty_plan =
     scripted_env (Inr (plain_reply [32, 10])) (Inr (plain_reply [111, 107]))
       (Inr (plain_reply [100, 111, 110, 101])) [weather_tool] loads_demo"

definition env_tool_on_empty_plan :: "(unit, unit) env" where
  "env_tool_on_empty_plan =
     scripted_env (Inr (plain_reply []))
       (Inr (tool_reply [(ascii ''maps_weather'', weather_args)]))
       (Inr (plain_reply [111, 107])) [] loads_demo"

definition env_listed_tool_on_empty_plan :: "(unit, unit) env" where
  "env_listed_tool_on_empty_plan =
     scripted_env (Inr (plain_reply []))
       (Inr (tool_reply [(ascii ''maps_weather'', weather_args)]))
       (Inr (plain_reply [111, 107])) [weather_tool] loads_demo"

definition env_scenario_C :: "(unit, unit) env" where
  "env_scenario_C =
     scripted_env (Inr (plain_reply scenario_A_text))
       (Inr (tool_reply [(ascii ''maps_weather'', weather_args)]))
       (Inr (plain_reply [111, 107])) [weather_tool] loads_demo"

definition env_two_requests :: "(unit, unit) env" where
  "env_two_requests =
     scripted_env (Inr (plain_reply scenario_A_text))
       (Inr (tool_reply [(ascii ''maps_weather'', weather_args), (ascii ''maps_geo'', geo_args)]))
       (Inr (plain_reply [111, 107])) [weather_tool, geo_tool] loads_demo"

text \<open>
  States of a connected client: with an empty cache, as in a run before its first tool
  call, and with the cache that the listing of the weather tool leaves.
\<close>

definition connected_state :: "unit agent_state" where
  "connected_state =
     (run_init [] ())\<lparr>client := \<lparr>session = True, tools_cache = []\<rparr>\<rparr>"

definition cached_state :: "unit agent_state" where
  "cached_state =
     (run_init [] ())\<lparr>client :=
        \<lparr>session = True, tools_cache = convert_tools_to_openai_params [weather_tool]\<rparr>\<rparr>"

section \<open>Strings: trimming and splitting\<close>








lemma str_split_without_delim: "d \<notin> set s \<Longrightarrow> str_split d s = [s]"
  by (induction s) (auto split: list.splits)





lemma steps_from_text_blank:
  "(\<forall>c\<in>set (str_split delimiter T). strip c = []) \<Longrightarrow> steps_from_text T = []"
  by (simp add: steps_from_text_def filter_empty_conv)

lemma scenario_A_steps:
  "steps_from_text [26597, 22825, 27668, 12290, 26597, 26223, 28857, 12290]
     = [[26597, 22825, 27668], [26597, 26223, 28857]]"
  by (simp add: steps_from_text_def delimiter_def space_def newline_def strip_def
      strip_chars_def strip_by_def isspace_def)

lemma set_plan_steps_from_text_fields:
  "plan_steps (set_plan_steps_from_text T p) = steps_from_text T"
  "current_step_index (set_plan_steps_from_text T p) = (if steps_from_text T \<noteq> [] then 0 else - 1)"
  "info_list (set_plan_steps_from_text T p) = info_list p"
  "requirement (set_plan_steps_from_text T p) = requirement p"
  by (simp_all add: set_plan_steps_from_text_def set_plan_steps_def)

section \<open>The plan parsed from the model's text\<close>



text \<open>
  Claim C3 says that a text without the delimiter gives the empty plan. The first
  step of scenario A alone, without any delimiter, gives a plan of one step and
  cursor 0.
\<close>

theorem undelimited_text_gives_one_step:
  "delimiter \<notin> set [26597, 22825, 27668]
   \<and> plan_steps (set_plan_steps_from_text [26597, 22825, 27668] (Planning_init []))
       = [[26597, 22825, 27668]]
   \<and> current_step_index (set_plan_steps_from_text [26597, 22825, 27668] (Planning_init [])) = 0"
  by (simp add: set_plan_steps_from_text_fields steps_from_text_def delimiter_def space_def
      newline_def strip_def strip_chars_def strip_by_def isspace_def)

text \<open>
  Claim C3, amended. When every piece between delimiters is empty or blank, the plan
  is empty: no steps, cursor - 1, no current step, and \<^verbatim>\<open>advance_step\<close> answers
  false without changing anything, which is what ends the rounds. A text without
  delimiter is one piece: it gives the empty plan only when it is empty or blank, and
  otherwise a plan of one step, the trimmed text, with cursor 0.
\<close>

theorem blank_text_gives_empty_plan:
  "((\<forall>c\<in>set (str_split delimiter T). strip c = []) \<longrightarrow>
      plan_steps (set_plan_steps_from_text T p) = []
      \<and> current_step_index (set_plan_steps_from_text T p) = - 1
      \<and> get_current_step (set_plan_steps_from_text T p) = None
      \<and> advance_step (set_plan_steps_from_text T p) = (False, set_plan_steps_from_text T p))
   \<and> (delimiter \<notin> set T \<longrightarrow>
        plan_steps (set_plan_steps_from_text T p)
          = (if strip T = [] then [] else [strip_chars [space, delimiter, newline] T])
        \<and> current_step_index (set_plan_steps_from_text T p) = (if strip T = [] then - 1 else 0))"
  by (auto simp: set_plan_steps_from_text_fields steps_from_text_blank get_current_step_def
      advance_step_def str_split_without_delim steps_from_text_def)

text \<open>
  Claim C3, amended, at the text space, delimiter, newline, delimiter, and at the
  text space, tab without delimiter.
\<close>

theorem blank_text_gives_empty_plan_witness:
  "plan_steps (set_plan_steps_from_text [32, 12290, 10, 12290] (Planning_init [])) = []
   \<and> current_step_index (set_plan_steps_from_text [32, 12290, 10, 12290] (Planning_init [])) = - 1
   \<and> fst (advance_step (set_plan_steps_from_text [32, 12290, 10, 12290] (Planning_init [])))
       = False
   \<and> plan_steps (set_plan_steps_from_text [32, 9] (Planning_init [])) = []"
proof -
  have h: "\<forall>c\<in>set (str_split delimiter [32, 12290, 10, 12290]). strip c = []"
    by (simp add: delimiter_def strip_def strip_by_def isspace_def)
  have d: "delimiter \<notin> set [32, 9]" by (simp add: delimiter_def)
  have s: "strip [32, 9] = []" by (simp add: strip_def strip_by_def isspace_def)
  note t1 = blank_text_gives_empty_plan
    [of "[32, 12290, 10, 12290]" "Planning_init []", THEN conjunct1, THEN mp, OF h]
  note t2 = blank_text_gives_empty_plan
    [of "[32, 9]" "Planning_init []", THEN conjunct2, THEN mp, OF d]
  have p2: "plan_steps (set_plan_steps_from_text [32, 9] (Planning_init [])) = []"
    using t2 s by simp
  show ?thesis using t1 p2 by simp
qed

section \<open>The cursor of the plan\<close>

lemma advance_step_cases:
  "advance_step p = (True, p\<lparr>current_step_index := current_step_index p + 1\<rparr>)
     \<and> current_step_index p + 1 < int (length (plan_steps p))
   \<or> advance_step p = (False, p)
     \<and> \<not> current_step_index p + 1 < int (length (plan_steps p))"
  by (simp add: advance_step_def)

lemma apply_op_keeps_plan:
  "\<not> resets_plan op \<Longrightarrow>
     length (plan_steps (apply_op op p)) = length (plan_steps p)
     \<and> current_step_index p \<le> current_step_index (apply_op op p)
     \<and> (fst (advance_step p) = False \<longrightarrow>
          current_step_index (apply_op op p) = current_step_index p)"
  by (cases op)
    (auto simp: add_info_def update_plan_step_def advance_step_def split: if_splits)

lemma apply_ops_keeps_plan:
  "\<forall>op\<in>set ops. \<not> resets_plan op \<Longrightarrow>
     length (plan_steps (apply_ops ops p)) = length (plan_steps p)
     \<and> current_step_index p \<le> current_step_index (apply_ops ops p)
     \<and> (fst (advance_step p) = False \<longrightarrow> fst (advance_step (apply_ops ops p)) = False)"
proof (induction ops arbitrary: p)
  case Nil
  then show ?case by simp
next
  case (Cons op ops)
  have o: "\<not> resets_plan op" and r: "\<forall>op\<in>set ops. \<not> resets_plan op"
    using Cons.prems by auto
  note a = apply_op_keeps_plan[OF o, of p]
  note b = Cons.IH[OF r, of "apply_op op p"]
  have c: "fst (advance_step p) = False \<Longrightarrow> fst (advance_step (apply_op op p)) = False"
    using a by (auto simp: advance_step_def split: if_splits)
  show ?case using a b c by auto
qed

text \<open>
  Claim C6. \<^verbatim>\<open>advance_step\<close> answers true exactly when the cursor plus one is below
  the number of steps; then it adds one to the cursor, and otherwise it leaves the
  object unchanged. So repeated calls never lower the cursor, and neither does any
  sequence of calls that does not set a new plan; once the answer is false it stays
  false after every such sequence.
\<close>

theorem advance_step_monotonic:
  "(fst (advance_step p) \<longleftrightarrow> current_step_index p + 1 < int (length (plan_steps p)))
   \<and> (fst (advance_step p) \<longrightarrow>
        snd (advance_step p) = p\<lparr>current_step_index := current_step_index p + 1\<rparr>)
   \<and> (\<not> fst (advance_step p) \<longrightarrow> snd (advance_step p) = p)
   \<and> current_step_index p \<le> current_step_index (apply_ops (replicate n AdvanceStep) p)
   \<and> ((\<forall>op\<in>set ops. \<not> resets_plan op) \<longrightarrow>
        current_step_index p \<le> current_step_index (apply_ops ops p)
        \<and> (\<not> fst (advance_step p) \<longrightarrow> \<not> fst (advance_step (apply_ops ops p))))"
proof -
  have 1: "fst (advance_step p) \<longleftrightarrow> current_step_index p + 1 < int (length (plan_steps p))"
    by (simp add: advance_step_def)
  have 2: "fst (advance_step p) \<longrightarrow>
        snd (advance_step p) = p\<lparr>current_step_index := current_step_index p + 1\<rparr>"
    by (simp add: advance_step_def)
  have 3: "\<not> fst (advance_step p) \<longrightarrow> snd (advance_step p) = p"
    by (simp add: advance_step_def)
  have 4: "current_step_index p \<le> current_step_index (apply_ops (replicate n AdvanceStep) p)"
    using apply_ops_keeps_plan[of "replicate n AdvanceStep" p] by simp
  have 5: "(\<forall>op\<in>set ops. \<not> resets_plan op) \<longrightarrow>
        current_step_index p \<le> current_step_index (apply_ops ops p)
        \<and> (\<not> fst (advance_step p) \<longrightarrow> \<not> fst (advance_step (apply_ops ops p)))"
    using apply_ops_keeps_plan[of ops p] by simp
  show ?thesis by (intro conjI) (rule 1, rule 2, rule 3, rule 4, rule 5)
qed

text \<open>
  Claim C6 on a plan of two steps: the first call advances to the second step, the
  next call answers false, and still does after an observation, another call and the
  overwriting of a step.
\<close>

theorem advance_step_monotonic_witness:
  "fst (advance_step two_steps) = True
   \<and> current_step_index (snd (advance_step two_steps)) = 1
   \<and> fst (advance_step (snd (advance_step two_steps))) = False
   \<and> fst (advance_step (apply_ops [AddInfo [99], AdvanceStep, UpdatePlanStep 0 [100]]
        (snd (advance_step two_steps)))) = False
   \<and> current_step_index (apply_ops [AddInfo [99], AdvanceStep, UpdatePlanStep 0 [100]]
        (snd (advance_step two_steps))) = 1"
proof -
  let ?q = "snd (advance_step two_steps)"
  let ?ops = "[AddInfo [99], AdvanceStep, UpdatePlanStep 0 [100]]"
  have len: "current_step_index two_steps + 1 < int (length (plan_steps two_steps))"
    by (simp add: two_steps_def set_plan_steps_def Planning_init_def)
  note t = advance_step_monotonic[of two_steps 0 "[]"]
  have a: "fst (advance_step two_steps) = True"
    using t[THEN conjunct1] len by simp
  have q: "?q = two_steps\<lparr>current_step_index := current_step_index two_steps + 1\<rparr>"
    using t[THEN conjunct2, THEN conjunct1] a by simp
  have b: "current_step_index ?q = 1"
    unfolding q by (simp add: two_steps_def set_plan_steps_def Planning_init_def)
  have nlen: "\<not> current_step_index ?q + 1 < int (length (plan_steps ?q))"
    unfolding q by (simp add: two_steps_def set_plan_steps_def Planning_init_def)
  note u = advance_step_monotonic[of ?q 0 ?ops]
  have c: "fst (advance_step ?q) = False"
    using u[THEN conjunct1] nlen by simp
  have nr: "\<forall>op\<in>set ?ops. \<not> resets_plan op" by simp
  note v = u[THEN conjunct2, THEN conjunct2, THEN conjunct2, THEN conjunct2, THEN mp, OF nr]
  have d: "fst (advance_step (apply_ops ?ops ?q)) = False"
    using v c by simp
  have e: "current_step_index (apply_ops ?ops ?q) = 1"
    unfolding q by (simp add: two_steps_def set_plan_steps_def Planning_init_def add_info_def
        advance_step_def update_plan_step_def)
  show ?thesis by (intro conjI) (rule a, rule b, rule c, rule d, rule e)
qed

section \<open>The invariant of the plan\<close>

lemma cursor_inv_apply_op: "cursor_inv p \<Longrightarrow> cursor_inv (apply_op op p)"
  by (cases op)
    (auto simp: cursor_inv_def add_info_def set_plan_steps_def set_plan_steps_from_text_def
      update_plan_step_def advance_step_def split: if_splits)

lemma cursor_inv_apply_ops: "cursor_inv p \<Longrightarrow> cursor_inv (apply_ops ops p)"
  by (induction ops arbitrary: p) (auto simp: cursor_inv_apply_op)

lemma info_list_apply_op:
  "\<exists>more. info_list (apply_op op p) = info_list p @ more"
  by (cases op)
    (auto simp: add_info_def set_plan_steps_def set_plan_steps_from_text_def
      update_plan_step_def advance_step_def split: if_splits)

lemma info_list_apply_ops:
  "\<exists>more. info_list (apply_ops ops p) = info_list p @ more"
proof (induction ops arbitrary: p)
  case Nil
  then show ?case by simp
next
  case (Cons op ops)
  obtain m1 where m1: "info_list (apply_op op p) = info_list p @ m1"
    using info_list_apply_op by blast
  obtain m2 where m2: "info_list (apply_ops ops (apply_op op p)) = info_list (apply_op op p) @ m2"
    using Cons.IH by blast
  show ?case using m1 m2 by simp
qed

lemma plan_steps_apply_op:
  "plan_steps (apply_op op p) = plan_steps p
   \<or> (\<exists>steps. op = SetPlanSteps steps \<and> plan_steps (apply_op op p) = steps)
   \<or> (\<exists>plan_text. op = SetPlanStepsFromText plan_text
        \<and> plan_steps (apply_op op p) = steps_from_text plan_text)
   \<or> (\<exists>index step. op = UpdatePlanStep index step
        \<and> 0 \<le> index \<and> index < int (length (plan_steps p))
        \<and> plan_steps (apply_op op p) = (plan_steps p)[nat index := step])"
  by (cases op)
    (auto simp: add_info_def set_plan_steps_def set_plan_steps_from_text_def
      update_plan_step_def advance_step_def split: if_splits)

section \<open>Frame lemmas\<close>

lemma emit_fields [simp]:
  "trace (emit a s) = trace s @ [a]" "planning (emit a s) = planning s"
  "client (emit a s) = client s" "world (emit a s) = world s" "rounds (emit a s) = rounds s"
  by (simp_all add: emit_def)

lemma tool_invocations_append [simp]:
  "tool_invocations (xs @ ys) = tool_invocations xs @ tool_invocations ys"
  by (induction xs rule: tool_invocations.induct) auto

lemma llm_call_frame:
  assumes "llm_call env messages tools s = (res, s')"
  shows "planning s' = planning s" and "client s' = client s" and "rounds s' = rounds s"
    and "trace s' = trace s @ [LLMRequest messages tools]"
  using assms by (auto simp: llm_call_def Let_def split: prod.splits sum.splits)

lemma llm_call_error:
  assumes "llm_call env messages tools s = (Inl e, s')"
  shows "error_kind e = LLMInvokeError" and "\<exists>text. error_msg e = model_call_error_prefix @ text"
  using assms by (auto simp: llm_call_def Let_def split: prod.splits sum.splits)

lemma list_tools_frame:
  assumes "list_tools env s = (res, s')"
  shows "planning s' = planning s" and "rounds s' = rounds s"
    and "session (client s') = session (client s)"
    and "tool_invocations (trace s') = tool_invocations (trace s)"
  using assms by (auto simp: list_tools_def Let_def split: prod.splits sum.splits if_splits)

lemma call_tool_frame:
  assumes "call_tool env tool_name params s = (res, s')"
  shows "planning s' = planning s" and "rounds s' = rounds s"
    and "session (client s') = session (client s)"
proof -
  have "planning s' = planning s \<and> rounds s' = rounds s \<and> session (client s') = session (client s)"
  proof (cases "tools_cache (client s) = []")
    case True
    obtain r1 s1 where l: "list_tools env s = (r1, s1)" by (cases "list_tools env s")
    note f = list_tools_frame[OF l]
    show ?thesis using assms True l f
      by (auto simp: call_tool_def Let_def split: prod.splits sum.splits if_splits)
  next
    case False
    then show ?thesis using assms
      by (auto simp: call_tool_def Let_def split: prod.splits sum.splits if_splits)
  qed
  then show "planning s' = planning s" and "rounds s' = rounds s"
    and "session (client s') = session (client s)" by auto
qed

section \<open>The tool client on its own cache\<close>

lemma getitem_converted_name:
  "getitem (convert_tool_to_openai_param tool) (ascii ''name'') = Inl (key_error (ascii ''name''))"
  by (simp add: convert_tool_to_openai_param_def ascii_def)

lemma registered_names_converted:
  "registered_names (convert_tools_to_openai_params raw)
     = (if raw = [] then Inr [] else Inl (key_error (ascii ''name'')))"
  by (cases raw) (simp_all add: convert_tools_to_openai_params_def getitem_converted_name)

lemma list_tools_result:
  assumes "session (client s)"
  shows "list_tools env s =
     (case session_list_tools env (world s) of
        (Inl e, w') \<Rightarrow> (Inl e, (emit SessionListTools s)\<lparr>world := w'\<rparr>)
      | (Inr raw_tools, w') \<Rightarrow>
          (Inr (convert_tools_to_openai_params raw_tools),
           (emit SessionListTools s)\<lparr>world := w',
              client := (client s)\<lparr>tools_cache := convert_tools_to_openai_params raw_tools\<rparr>\<rparr>))"
  using assms by (simp add: list_tools_def Let_def split: prod.splits sum.splits)

lemma converted_Nil: "\<exists>raw'. [] = convert_tools_to_openai_params raw'"
  by (rule exI[of _ "[]"]) (simp add: convert_tools_to_openai_params_def)

text \<open>With a cache that holds converted descriptors, no call reaches the session.\<close>

lemma call_tool_converted:
  assumes c: "tools_cache (client s) = convert_tools_to_openai_params raw"
  shows "\<exists>e s'. call_tool env tool_name params s = (Inl e, s')
     \<and> planning s' = planning s \<and> rounds s' = rounds s
     \<and> tool_invocations (trace s') = tool_invocations (trace s)
     \<and> (\<exists>raw'. tools_cache (client s') = convert_tools_to_openai_params raw')
     \<and> trace s' = trace s @ (if session (client s) \<and> raw = [] then [SessionListTools] else [])"
proof (cases "session (client s)")
  case False
  then show ?thesis using c by (auto simp: call_tool_def)
next
  case True
  show ?thesis
  proof (cases "raw = []")
    case False
    then have ne: "tools_cache (client s) \<noteq> []"
      using c by (simp add: convert_tools_to_openai_params_def)
    show ?thesis using True False ne c
      by (auto simp: call_tool_def registered_names_converted)
  next
    case e: True
    then have em: "tools_cache (client s) = []"
      using c by (simp add: convert_tools_to_openai_params_def)
    obtain r w' where l: "session_list_tools env (world s) = (r, w')"
      by (cases "session_list_tools env (world s)")
    show ?thesis
    proof (cases r)
      case (Inl err)
      then show ?thesis using True e em l c converted_Nil
        by (auto simp: call_tool_def list_tools_result)
    next
      case (Inr fetched)
      then show ?thesis using True e em l
        by (auto simp: call_tool_def list_tools_result registered_names_converted)
    qed
  qed
qed

section \<open>What the rounds change\<close>

lemma same_plan_refl [simp]: "same_plan p p"
  by (simp add: same_plan_def)

lemma same_plan_trans: "same_plan p q \<Longrightarrow> same_plan q r \<Longrightarrow> same_plan p r"
  by (auto simp: same_plan_def)

lemma same_plan_add_info [simp]: "same_plan p (add_info info p)"
  by (simp add: same_plan_def add_info_def)

lemma tool_calls_loop_frame:
  "tool_calls_loop env calls s = (res, s') \<Longrightarrow>
     rounds s' = rounds s \<and> same_plan (planning s) (planning s')"
proof (induction calls arbitrary: s)
  case Nil
  then show ?case by simp
next
  case (Cons call rest)
  obtain function_name function_args where call: "call = (function_name, function_args)"
    by (cases call)
  let ?s1 = "emit (Yield (tool_event function_name function_args)) s"
  show ?case
  proof (cases "json_loads env function_args")
    case (Inl e)
    then show ?thesis using Cons.prems call by (auto simp: Let_def)
  next
    case (Inr args)
    obtain r2 s2 where ct: "call_tool env function_name args ?s1 = (r2, s2)"
      by (cases "call_tool env function_name args ?s1")
    note f2 = call_tool_frame[OF ct]
    show ?thesis
    proof (cases r2)
      case (Inl e)
      then show ?thesis using Cons.prems call Inr ct f2 by (auto simp: Let_def)
    next
      case tw: (Inr tool_wait)
      obtain r3 s3 where lc:
        "llm_call env [(role_user, summary_request (str_of_result env tool_wait))] None s2 = (r3, s3)"
        by (cases "llm_call env [(role_user, summary_request (str_of_result env tool_wait))] None s2")
      note f3 = llm_call_frame[OF lc]
      show ?thesis
      proof (cases r3)
        case (Inl e)
        then show ?thesis using Cons.prems call Inr ct tw lc f2 f3 by (auto simp: Let_def)
      next
        case tr: (Inr tool_result)
        let ?s4 = "s3\<lparr>planning := add_info (content tool_result) (planning s3)\<rparr>"
        have rec: "tool_calls_loop env rest ?s4 = (res, s')"
          using Cons.prems call Inr ct tw lc tr by (simp add: Let_def)
        note ih = Cons.IH[OF rec]
        have p4: "planning ?s4 = add_info (content tool_result) (planning s)"
          using f2 f3 by simp
        have "same_plan (planning s) (planning ?s4)"
          unfolding p4 by (rule same_plan_add_info)
        moreover have "same_plan (planning ?s4) (planning s')" using ih by simp
        ultimately have "same_plan (planning s) (planning s')" by (rule same_plan_trans)
        moreover have "rounds s' = rounds s" using ih f2 f3 by simp
        ultimately show ?thesis by simp
      qed
    qed
  qed
qed

lemma same_plan_advance:
  "advance_step p = (b, p') \<Longrightarrow>
     requirement p' = requirement p \<and> plan_steps p' = plan_steps p \<and> info_list p' = info_list p
     \<and> current_step_index p \<le> current_step_index p'"
  by (auto simp: advance_step_def split: if_splits)

lemma grown_plan_refl [simp]: "grown_plan p p"
  by (simp add: grown_plan_def)

lemma grown_plan_trans: "grown_plan p q \<Longrightarrow> grown_plan q r \<Longrightarrow> grown_plan p r"
  by (auto simp: grown_plan_def)

lemma after_reply_frame:
  assumes "after_reply env result s = (res, s')"
  shows "rounds s' = rounds s \<and> grown_plan (planning s) (planning s')"
proof -
  obtain r1 s1 where t: "(if finish_reason result = reason_tool_calls
            then tool_calls_loop env (tool_calls result) s else (Inr (), s)) = (r1, s1)"
    by (cases "(if finish_reason result = reason_tool_calls
            then tool_calls_loop env (tool_calls result) s else (Inr (), s))")
  have f1: "rounds s1 = rounds s \<and> same_plan (planning s) (planning s1)"
  proof (cases "finish_reason result = reason_tool_calls")
    case True
    then have "tool_calls_loop env (tool_calls result) s = (r1, s1)" using t by simp
    then show ?thesis by (rule tool_calls_loop_frame)
  next
    case False
    then show ?thesis using t by simp
  qed
  show ?thesis
  proof (cases r1)
    case (Inl e)
    then show ?thesis using assms t f1 by (auto simp: after_reply_def grown_plan_def same_plan_def)
  next
    case (Inr u)
    obtain b p' where a: "advance_step (planning s1) = (b, p')"
      by (cases "advance_step (planning s1)")
    note fa = same_plan_advance[OF a]
    show ?thesis
    proof (cases b)
      case True
      then show ?thesis using assms t f1 Inr a fa
        by (auto simp: after_reply_def grown_plan_def same_plan_def)
    next
      case False
      let ?s2 = "emit (Yield no_next_step_msg) (s1\<lparr>planning := p'\<rparr>)"
      obtain r3 s3 where lc:
        "llm_call env [(role_user, final_request (Planning_str (planning ?s2)))] None ?s2 = (r3, s3)"
        by (cases "llm_call env [(role_user, final_request (Planning_str (planning ?s2)))] None ?s2")
      note f3 = llm_call_frame[OF lc]
      have "(res, s') = (case r3 of Inl e \<Rightarrow> (Raised e, s3) | Inr answer \<Rightarrow> (Final (content answer), s3))"
        using assms t Inr a False lc by (simp add: after_reply_def Let_def)
      then have "s' = s3" by (cases r3) auto
      then show ?thesis using f1 fa f3 by (auto simp: grown_plan_def same_plan_def)
    qed
  qed
qed

lemma run_round_frame:
  assumes "run_round env tools s = (res, s')"
  shows "rounds s' = Suc (rounds s) \<and> grown_plan (planning s) (planning s')"
proof -
  let ?s1 = "emit (Yield separator) (s\<lparr>rounds := Suc (rounds s)\<rparr>)"
  let ?s2 = "emit (Yield (str_of_step (get_current_step (planning ?s1)))) ?s1"
  obtain r3 s3 where lc:
    "llm_call env [(role_user, Planning_str (planning ?s2))] (Some tools) ?s2 = (r3, s3)"
    by (cases "llm_call env [(role_user, Planning_str (planning ?s2))] (Some tools) ?s2")
  note f3 = llm_call_frame[OF lc]
  show ?thesis
  proof (cases r3)
    case (Inl e)
    then show ?thesis using assms lc f3 by (auto simp: run_round_def Let_def)
  next
    case (Inr result)
    then have "after_reply env result s3 = (res, s')"
      using assms lc by (simp add: run_round_def Let_def)
    from after_reply_frame[OF this] show ?thesis using f3 by simp
  qed
qed

lemma rounds_loop_frame:
  "rounds_loop env tools n s = (res, s') \<Longrightarrow>
     rounds s' \<le> rounds s + n \<and> grown_plan (planning s) (planning s')"
proof (induction n arbitrary: s)
  case 0
  then show ?case by simp
next
  case (Suc n)
  obtain r1 s1 where rr: "run_round env tools s = (r1, s1)"
    by (cases "run_round env tools s")
  note f1 = run_round_frame[OF rr]
  show ?case
  proof (cases r1)
    case (Raised e)
    then show ?thesis using Suc.prems rr f1 by auto
  next
    case Continue
    then have "rounds_loop env tools n s1 = (res, s')" using Suc.prems rr by simp
    from Suc.IH[OF this] show ?thesis using f1 grown_plan_trans by fastforce
  next
    case (Final a)
    then show ?thesis using Suc.prems rr f1 by auto
  qed
qed

lemma connect_frame:
  assumes "connect env s = (res, s')"
  shows "rounds s' = rounds s" and "planning s' = planning s"
  using assms by (auto simp: connect_def Let_def split: prod.splits sum.splits)

lemma disconnect_fields [simp]:
  "rounds (disconnect b s) = rounds s" "planning (disconnect b s) = planning s"
  "trace (disconnect b s) = trace s @ [SessionClose]"
  by (simp_all add: disconnect_def)

lemma run_rounds_le: "rounds (snd (run env tools user_input w)) \<le> max_rounds"
proof (cases "build_system_prompt_with_tools env tools")
  case (Inl e)
  then show ?thesis by (simp add: run_def run_init_def)
next
  case (Inr planning_prompt)
  let ?s0 = "run_init user_input w"
  obtain r1 s1 where lc:
    "llm_call env [(role_system, planning_prompt), (role_user, user_input)] None ?s0 = (r1, s1)"
    by (cases "llm_call env [(role_system, planning_prompt), (role_user, user_input)] None ?s0")
  note f1 = llm_call_frame[OF lc]
  have r0: "rounds s1 = 0" using f1 by (simp add: run_init_def)
  show ?thesis
  proof (cases r1)
    case (Inl e)
    then show ?thesis using Inr lc r0 by (simp add: run_def Let_def)
  next
    case pr: (Inr planning_result)
    let ?s2 = "s1\<lparr>planning := set_plan_steps_from_text (content planning_result) (planning s1)\<rparr>"
    let ?s3 = "emit (Yield separator) (emit (Yield (Planning_str (planning ?s2)))
                              (emit (Yield plan_header) ?s2))"
    obtain r4 s4 where cn: "connect env ?s3 = (r4, s4)" by (cases "connect env ?s3")
    note f4 = connect_frame[OF cn]
    have r4: "rounds s4 = 0" using f4 r0 by simp
    show ?thesis
    proof (cases r4)
      case (Inl e)
      then show ?thesis using Inr lc pr cn r4 by (simp add: run_def Let_def)
    next
      case cu: (Inr u)
      obtain r5 s5 where rl: "rounds_loop env tools max_rounds s4 = (r5, s5)"
        by (cases "rounds_loop env tools max_rounds s4")
      from rounds_loop_frame[OF rl] have r5: "rounds s5 \<le> max_rounds" using r4 by simp
      show ?thesis using Inr lc pr cn cu rl r5
        by (cases r5) (simp_all add: run_def Let_def)
    qed
  qed
qed

section \<open>Rounds without a tool request\<close>

lemma llm_call_reply:
  assumes "chat_completions_create env messages tools (world s) = (Inr r, w')"
  shows "llm_call env messages tools s = (Inr r, (emit (LLMRequest messages tools) s)\<lparr>world := w'\<rparr>)"
  using assms by (simp add: llm_call_def Let_def)

lemma after_reply_without_request:
  assumes "finish_reason result = reason_tool_calls \<longrightarrow> tool_calls result = []"
  shows "after_reply env result s =
     (case advance_step (planning s) of
        (True, p') \<Rightarrow> (Continue, s\<lparr>planning := p'\<rparr>)
      | (False, p') \<Rightarrow>
          (let s2 = emit (Yield no_next_step_msg) (s\<lparr>planning := p'\<rparr>) in
           case llm_call env [(role_user, final_request (Planning_str (planning s2)))] None s2 of
             (Inl e, s3) \<Rightarrow> (Raised e, s3)
           | (Inr answer, s3) \<Rightarrow> (Final (content answer), s3)))"
proof -
  have "(if finish_reason result = reason_tool_calls
            then tool_calls_loop env (tool_calls result) s else (Inr (), s)) = (Inr (), s)"
    using assms by auto
  then show ?thesis unfolding after_reply_def by simp
qed

lemma run_round_continues:
  assumes q: "replies_without_tool_request env"
    and more: "current_step_index (planning s) + 1 < int (length (plan_steps (planning s)))"
  shows "\<exists>s'. run_round env tools s = (Continue, s')
     \<and> rounds s' = Suc (rounds s)
     \<and> planning s' = (planning s)\<lparr>current_step_index := current_step_index (planning s) + 1\<rparr>
     \<and> client s' = client s
     \<and> tool_invocations (trace s') = tool_invocations (trace s)"
proof -
  let ?s1 = "emit (Yield separator) (s\<lparr>rounds := Suc (rounds s)\<rparr>)"
  let ?s2 = "emit (Yield (str_of_step (get_current_step (planning ?s1)))) ?s1"
  let ?m = "[(role_user, Planning_str (planning ?s2))]"
  obtain r w' where c: "chat_completions_create env ?m (Some tools) (world ?s2) = (Inr r, w')"
    and nr: "finish_reason r = reason_tool_calls \<longrightarrow> tool_calls r = []"
    using q unfolding replies_without_tool_request_def by blast
  let ?s3 = "(emit (LLMRequest ?m (Some tools)) ?s2)\<lparr>world := w'\<rparr>"
  have lc: "llm_call env ?m (Some tools) ?s2 = (Inr r, ?s3)"
    using c by (rule llm_call_reply)
  have adv: "advance_step (planning ?s3)
      = (True, (planning s)\<lparr>current_step_index := current_step_index (planning s) + 1\<rparr>)"
    using more by (simp add: advance_step_def)
  have "run_round env tools s = after_reply env r ?s3"
    using lc by (simp add: run_round_def Let_def)
  also have "\<dots> = (Continue,
      ?s3\<lparr>planning := (planning s)\<lparr>current_step_index := current_step_index (planning s) + 1\<rparr>\<rparr>)"
    unfolding after_reply_without_request[OF nr] adv by simp
  finally show ?thesis by simp
qed

lemma rounds_loop_exhausts:
  assumes q: "replies_without_tool_request env"
  shows "current_step_index (planning s) + int n < int (length (plan_steps (planning s))) \<Longrightarrow>
     \<exists>s'. rounds_loop env tools n s = (Inr [], s') \<and> rounds s' = rounds s + n
       \<and> tool_invocations (trace s') = tool_invocations (trace s)
       \<and> info_list (planning s') = info_list (planning s)"
proof (induction n arbitrary: s)
  case 0
  then show ?case by simp
next
  case (Suc n)
  have more: "current_step_index (planning s) + 1 < int (length (plan_steps (planning s)))"
    using Suc.prems by simp
  obtain s1 where r: "run_round env tools s = (Continue, s1)"
    and f: "rounds s1 = Suc (rounds s)"
      "planning s1 = (planning s)\<lparr>current_step_index := current_step_index (planning s) + 1\<rparr>"
      "tool_invocations (trace s1) = tool_invocations (trace s)"
    using run_round_continues[OF q more] by blast
  have "current_step_index (planning s1) + int n < int (length (plan_steps (planning s1)))"
    using Suc.prems f by simp
  from Suc.IH[OF this] obtain s' where
    "rounds_loop env tools n s1 = (Inr [], s')" "rounds s' = rounds s1 + n"
    "tool_invocations (trace s') = tool_invocations (trace s1)"
    "info_list (planning s') = info_list (planning s1)"
    by blast
  then show ?case using r f by simp
qed

lemma connect_opens:
  assumes "session_opens env"
  shows "\<exists>s'. connect env s = (Inr (), s') \<and> planning s' = planning s \<and> rounds s' = rounds s
     \<and> trace s' = trace s @ [SessionOpen, SessionInitialize]
     \<and> client s' = (client s)\<lparr>session := True\<rparr>"
proof -
  obtain w1 where a: "sse_connect env (world s) = (Inr (), w1)"
    using assms unfolding session_opens_def by blast
  obtain w2 where b: "session_initialize env w1 = (Inr (), w2)"
    using assms unfolding session_opens_def by blast
  show ?thesis using a b by (simp add: connect_def Let_def)
qed

text \<open>A plan of more than six steps, and a model that never asks for a tool.\<close>

lemma run_exhausts:
  assumes prompt: "build_system_prompt_with_tools env tools = Inr planning_prompt"
    and plan: "chat_completions_create env
        [(role_system, planning_prompt), (role_user, user_input)] None w = (Inr planning_result, w1)"
    and long: "6 < length (steps_from_text (content planning_result))"
    and opens: "session_opens env"
    and quiet: "replies_without_tool_request env"
  shows "fst (run env tools user_input w) = Inl (Error LLMInvokeError exhausted_msg)"
    and "rounds (snd (run env tools user_input w)) = 6"
    and "last (trace (snd (run env tools user_input w))) = SessionClose"
    and "tool_invocations (trace (snd (run env tools user_input w))) = []"
proof -
  let ?s0 = "run_init user_input w"
  let ?m = "[(role_system, planning_prompt), (role_user, user_input)]"
  let ?s1 = "(emit (LLMRequest ?m None) ?s0)\<lparr>world := w1\<rparr>"
  have lc: "llm_call env ?m None ?s0 = (Inr planning_result, ?s1)"
    using plan by (intro llm_call_reply) (simp add: run_init_def)
  let ?s2 = "?s1\<lparr>planning := set_plan_steps_from_text (content planning_result) (planning ?s1)\<rparr>"
  let ?s3 = "emit (Yield separator) (emit (Yield (Planning_str (planning ?s2)))
                              (emit (Yield plan_header) ?s2))"
  obtain s4 where cn: "connect env ?s3 = (Inr (), s4)"
    and f4: "planning s4 = planning ?s3" "rounds s4 = rounds ?s3"
      "trace s4 = trace ?s3 @ [SessionOpen, SessionInitialize]"
    using connect_opens[OF opens, of ?s3] by blast
  have ne: "steps_from_text (content planning_result) \<noteq> []"
    using long by auto
  have idx: "current_step_index (planning s4) + int 6 < int (length (plan_steps (planning s4)))"
    using long ne f4 by (simp add: set_plan_steps_from_text_fields)
  obtain s5 where rl: "rounds_loop env tools 6 s4 = (Inr [], s5)" and r5: "rounds s5 = rounds s4 + 6"
    and t5: "tool_invocations (trace s5) = tool_invocations (trace s4)"
    using rounds_loop_exhausts[OF quiet idx] by blast
  have run: "run env tools user_input w
      = (Inl (Error LLMInvokeError exhausted_msg), disconnect False s5)"
    using prompt lc cn rl by (simp add: run_def Let_def max_rounds_def)
  show "fst (run env tools user_input w) = Inl (Error LLMInvokeError exhausted_msg)"
    by (simp add: run)
  show "rounds (snd (run env tools user_input w)) = 6"
    using r5 f4 by (simp add: run run_init_def)
  show "last (trace (snd (run env tools user_input w))) = SessionClose"
    by (simp add: run)
  show "tool_invocations (trace (snd (run env tools user_input w))) = []"
    using t5 f4 by (simp add: run run_init_def)
qed

lemma exhausted_msg_no_prefix: "model_call_error_prefix @ text \<noteq> exhausted_msg"
  by (simp add: model_call_error_prefix_def exhausted_msg_def)

section \<open>Scripted environments\<close>

lemma scripted_env_fields [simp]:
  "chat_completions_create (scripted_env plan_reply round_reply other_reply catalog loads)
     messages tools w
   = ((case tools of Some offered \<Rightarrow> round_reply
       | None \<Rightarrow> if length messages = 2 then plan_reply else other_reply), w)"
  "sse_connect (scripted_env plan_reply round_reply other_reply catalog loads) w = (Inr (), w)"
  "session_initialize (scripted_env plan_reply round_reply other_reply catalog loads) w = (Inr (), w)"
  "session_list_tools (scripted_env plan_reply round_reply other_reply catalog loads) w
     = (Inr catalog, w)"
  "json_loads (scripted_env plan_reply round_reply other_reply catalog loads) = loads"
  by (simp_all add: scripted_env_def)

lemma scripted_env_opens:
  "session_opens (scripted_env plan_reply round_reply other_reply catalog loads)"
  by (simp add: session_opens_def)

lemma scripted_env_quiet:
  "replies_without_tool_request
     (scripted_env (Inr (plain_reply a)) (Inr (plain_reply b)) (Inr (plain_reply c)) catalog loads)"
  by (auto simp: replies_without_tool_request_def plain_reply_def split: option.splits)

lemma prompt_without_tools: "build_system_prompt_with_tools env [] = Inr prompt_intro"
  by (simp add: build_system_prompt_with_tools_def)

lemma seven_steps: "length (steps_from_text seven_steps_text) = 7"
  by (simp add: seven_steps_text_def steps_from_text_def delimiter_def space_def newline_def
      strip_def strip_chars_def strip_by_def isspace_def)

lemma run_never_done:
  "fst (run env_never_done [] [] ()) = Inl (Error LLMInvokeError exhausted_msg)"
  "rounds (snd (run env_never_done [] [] ())) = 6"
proof -
  have plan: "chat_completions_create env_never_done
        [(role_system, prompt_intro), (role_user, [])] None () = (Inr (plain_reply seven_steps_text), ())"
    by (simp add: env_never_done_def)
  have long: "6 < length (steps_from_text (content (plain_reply seven_steps_text)))"
    by (simp add: plain_reply_def seven_steps)
  have opens: "session_opens env_never_done"
    unfolding env_never_done_def by (rule scripted_env_opens)
  have quiet: "replies_without_tool_request env_never_done"
    unfolding env_never_done_def by (rule scripted_env_quiet)
  show "fst (run env_never_done [] [] ()) = Inl (Error LLMInvokeError exhausted_msg)"
    by (rule run_exhausts(1)[OF prompt_without_tools plan long opens quiet])
  show "rounds (snd (run env_never_done [] [] ())) = 6"
    by (rule run_exhausts(2)[OF prompt_without_tools plan long opens quiet])
qed

lemma run_model_down:
  "fst (run env_model_down [] [] ())
     = Inl (Error LLMInvokeError (model_call_error_prefix @ ascii ''timeout''))"
  by (simp add: run_def prompt_without_tools llm_call_def env_model_down_def Let_def)

text \<open>
  Claim C1 says that the exhaustion of the round budget is reported as an error kind of
  its own, distinct from the failure of a model request. A run whose plan has seven
  steps and whose model never asks for a tool, and a run whose model endpoint times
  out, both end with an error of the class \<^verbatim>\<open>LLMInvokeError\<close>.
\<close>

theorem exhaustion_error_kind_not_distinct:
  "fst (run env_never_done [] [] ()) = Inl (Error LLMInvokeError exhausted_msg)
   \<and> fst (run env_model_down [] [] ())
       = Inl (Error LLMInvokeError (model_call_error_prefix @ ascii ''timeout''))
   \<and> map_sum error_kind id (fst (run env_never_done [] [] ()))
       = map_sum error_kind id (fst (run env_model_down [] [] ()))"
  by (simp add: run_never_done run_model_down)

text \<open>
  Claim C1, amended. No run executes more than six rounds. A run whose plan has more
  than six steps and whose model answers every request without asking for a tool fails
  after exactly six rounds with the error \<^verbatim>\<open>LLMInvokeError\<close> carrying the message
  that no answer was found within the rounds, and the session is closed last, with no
  answer yielded. That error has the class of the failures of a model request; it
  differs from every one of them by its message only.
\<close>

theorem run_round_budget:
  "rounds (snd (run env tools user_input w)) \<le> 6
   \<and> (build_system_prompt_with_tools env tools = Inr planning_prompt
       \<and> chat_completions_create env
            [(role_system, planning_prompt), (role_user, user_input)] None w
          = (Inr planning_result, w1)
       \<and> 6 < length (steps_from_text (content planning_result))
       \<and> session_opens env \<and> replies_without_tool_request env
      \<longrightarrow> fst (run env tools user_input w) = Inl (Error LLMInvokeError exhausted_msg)
          \<and> rounds (snd (run env tools user_input w)) = 6
          \<and> last (trace (snd (run env tools user_input w))) = SessionClose)
   \<and> (llm_call env' messages offered s = (Inl e, s')
      \<longrightarrow> error_kind e = error_kind (Error LLMInvokeError exhausted_msg)
          \<and> error_msg e \<noteq> exhausted_msg)"
proof -
  have 1: "rounds (snd (run env tools user_input w)) \<le> 6"
    using run_rounds_le[of env tools user_input w] by (simp add: max_rounds_def)
  have 2: "build_system_prompt_with_tools env tools = Inr planning_prompt
       \<and> chat_completions_create env
            [(role_system, planning_prompt), (role_user, user_input)] None w
          = (Inr planning_result, w1)
       \<and> 6 < length (steps_from_text (content planning_result))
       \<and> session_opens env \<and> replies_without_tool_request env
      \<longrightarrow> fst (run env tools user_input w) = Inl (Error LLMInvokeError exhausted_msg)
          \<and> rounds (snd (run env tools user_input w)) = 6
          \<and> last (trace (snd (run env tools user_input w))) = SessionClose"
    using run_exhausts(1-3)[of env tools planning_prompt user_input w planning_result w1]
    by blast
  have 3: "llm_call env' messages offered s = (Inl e, s')
      \<longrightarrow> error_kind e = error_kind (Error LLMInvokeError exhausted_msg)
          \<and> error_msg e \<noteq> exhausted_msg"
  proof
    assume f: "llm_call env' messages offered s = (Inl e, s')"
    obtain detail where m: "error_msg e = model_call_error_prefix @ detail"
      using llm_call_error(2)[OF f] by blast
    have "error_msg e \<noteq> exhausted_msg"
      unfolding m by (rule exhausted_msg_no_prefix)
    then show "error_kind e = error_kind (Error LLMInvokeError exhausted_msg)
          \<and> error_msg e \<noteq> exhausted_msg"
      using llm_call_error(1)[OF f] by simp
  qed
  show ?thesis by (intro conjI) (rule 1, rule 2, rule 3)
qed

text \<open>
  Claim C1, amended, at the run with the plan of seven steps, and at a model request
  that times out.
\<close>

theorem run_round_budget_witness:
  "rounds (snd (run env_never_done [] [] ())) = 6
   \<and> fst (run env_never_done [] [] ()) = Inl (Error LLMInvokeError exhausted_msg)
   \<and> last (trace (snd (run env_never_done [] [] ()))) = SessionClose
   \<and> fst (llm_call env_model_down [] None (run_init [] ()))
       = Inl (Error LLMInvokeError (model_call_error_prefix @ ascii ''timeout''))
   \<and> error_kind (Error LLMInvokeError (model_call_error_prefix @ ascii ''timeout''))
       = error_kind (Error LLMInvokeError exhausted_msg)"
proof -
  have plan: "chat_completions_create env_never_done
        [(role_system, prompt_intro), (role_user, [])] None () = (Inr (plain_reply seven_steps_text), ())"
    by (simp add: env_never_done_def)
  have long: "6 < length (steps_from_text (content (plain_reply seven_steps_text)))"
    by (simp add: plain_reply_def seven_steps)
  have opens: "session_opens env_never_done"
    unfolding env_never_done_def by (rule scripted_env_opens)
  have quiet: "replies_without_tool_request env_never_done"
    unfolding env_never_done_def by (rule scripted_env_quiet)
  have down: "llm_call env_model_down [] None (run_init [] ())
     = (Inl (Error LLMInvokeError (model_call_error_prefix @ ascii ''timeout'')),
        (emit (LLMRequest [] None) (run_init [] ()))\<lparr>world := ()\<rparr>)"
    by (simp add: llm_call_def env_model_down_def Let_def)
  note t = run_round_budget[where env = env_never_done and tools = "[]" and user_input = "[]"
      and w = "()" and planning_prompt = prompt_intro
      and planning_result = "plain_reply seven_steps_text" and ?w1.0 = "()"
      and env' = env_model_down and messages = "[]" and offered = None
      and s = "run_init [] ()"
      and e = "Error LLMInvokeError (model_call_error_prefix @ ascii ''timeout'')"
      and s' = "(emit (LLMRequest [] None) (run_init [] ()))\<lparr>world := ()\<rparr>"]
  have h: "build_system_prompt_with_tools env_never_done [] = Inr prompt_intro
       \<and> chat_completions_create env_never_done
            [(role_system, prompt_intro), (role_user, [])] None ()
          = (Inr (plain_reply seven_steps_text), ())
       \<and> 6 < length (steps_from_text (content (plain_reply seven_steps_text)))
       \<and> session_opens env_never_done \<and> replies_without_tool_request env_never_done"
    using prompt_without_tools plan long opens quiet by blast
  note a = t[THEN conjunct2, THEN conjunct1, THEN mp, OF h]
  note b = t[THEN conjunct2, THEN conjunct2, THEN mp, OF down]
  show ?thesis using a b down by simp
qed

text \<open>
  Claim C8. A new Planning object satisfies the invariant that a cursor of at least 0
  is below the number of steps, and every operation, so every sequence of operations,
  preserves it. An operation leaves the step list as it is, replaces it as a whole, or
  overwrites the step at one valid index. The observations before a sequence of
  operations, and before the rounds of a run, are an initial part of the observations
  after it, so their number never decreases.
\<close>

theorem planning_operations_keep_invariant:
  "cursor_inv (Planning_init user_input)
   \<and> (cursor_inv p \<longrightarrow> cursor_inv (apply_op op p) \<and> cursor_inv (apply_ops ops p))
   \<and> (plan_steps (apply_op op p) = plan_steps p
       \<or> (\<exists>steps. op = SetPlanSteps steps \<and> plan_steps (apply_op op p) = steps)
       \<or> (\<exists>plan_text. op = SetPlanStepsFromText plan_text
            \<and> plan_steps (apply_op op p) = steps_from_text plan_text)
       \<or> (\<exists>index step. op = UpdatePlanStep index step
            \<and> 0 \<le> index \<and> index < int (length (plan_steps p))
            \<and> plan_steps (apply_op op p) = (plan_steps p)[nat index := step]))
   \<and> length (info_list p) \<le> length (info_list (apply_ops ops p))
   \<and> take (length (info_list p)) (info_list (apply_ops ops p)) = info_list p
   \<and> length (info_list (planning s))
       \<le> length (info_list (planning (snd (rounds_loop env tools n s))))
   \<and> take (length (info_list (planning s)))
         (info_list (planning (snd (rounds_loop env tools n s)))) = info_list (planning s)"
proof -
  have 1: "cursor_inv (Planning_init user_input)"
    by (simp add: cursor_inv_def Planning_init_def)
  have 2: "cursor_inv p \<longrightarrow> cursor_inv (apply_op op p) \<and> cursor_inv (apply_ops ops p)"
    using cursor_inv_apply_op cursor_inv_apply_ops by blast
  note 3 = plan_steps_apply_op[of op p]
  obtain more where m: "info_list (apply_ops ops p) = info_list p @ more"
    using info_list_apply_ops by blast
  have 4: "length (info_list p) \<le> length (info_list (apply_ops ops p))"
    and 5: "take (length (info_list p)) (info_list (apply_ops ops p)) = info_list p"
    by (simp_all add: m)
  obtain res s' where r: "rounds_loop env tools n s = (res, s')"
    by (cases "rounds_loop env tools n s")
  obtain grown where g: "info_list (planning s') = info_list (planning s) @ grown"
    using rounds_loop_frame[OF r] by (auto simp: grown_plan_def)
  have 6: "length (info_list (planning s))
       \<le> length (info_list (planning (snd (rounds_loop env tools n s))))"
    and 7: "take (length (info_list (planning s)))
         (info_list (planning (snd (rounds_loop env tools n s)))) = info_list (planning s)"
    by (simp_all add: r g)
  show ?thesis by (intro conjI) (rule 1, rule 2, rule 3, rule 4, rule 5, rule 6, rule 7)
qed

text \<open>
  Claim C8 on the plan of two steps and a sequence of five operations.
\<close>

theorem planning_operations_keep_invariant_witness:
  "cursor_inv two_steps
   \<and> cursor_inv (apply_op AdvanceStep two_steps)
   \<and> cursor_inv (apply_ops
        [AdvanceStep, AddInfo [99], UpdatePlanStep 1 [100], AdvanceStep, SetPlanSteps []]
        two_steps)
   \<and> plan_steps (apply_op (UpdatePlanStep 1 [100]) two_steps) = [[97], [100]]
   \<and> length (info_list two_steps)
       \<le> length (info_list (apply_ops
            [AdvanceStep, AddInfo [99], UpdatePlanStep 1 [100], AdvanceStep, SetPlanSteps []]
            two_steps))"
proof -
  let ?ops = "[AdvanceStep, AddInfo [99], UpdatePlanStep 1 [100], AdvanceStep, SetPlanSteps []]"
  have i: "cursor_inv two_steps"
    by (simp add: cursor_inv_def two_steps_def set_plan_steps_def Planning_init_def)
  note t = planning_operations_keep_invariant[where p = two_steps and op = AdvanceStep and ops = ?ops]
  note a = t[THEN conjunct2, THEN conjunct1, THEN mp, OF i]
  note b = t[THEN conjunct2, THEN conjunct2, THEN conjunct2, THEN conjunct1]
  have c: "plan_steps (apply_op (UpdatePlanStep 1 [100]) two_steps) = [[97], [100]]"
    by (simp add: two_steps_def set_plan_steps_def Planning_init_def update_plan_step_def)
  show ?thesis using i a b c by simp
qed

section \<open>Tool descriptors on the wire\<close>

lemma openai_param_round_trip:
  "openai_param_to_tool (convert_tool_to_openai_param tool) = Some tool"
  by (cases "description tool")
    (simp_all add: openai_param_to_tool_def convert_tool_to_openai_param_def ascii_def opt_str_def)

text \<open>
  Claim C9. The conversion of a tool descriptor gives the record with the type
  \<^verbatim>\<open>function\<close> and, under \<^verbatim>\<open>function\<close>, the name, the description and the input
  schema as parameters, for every schema. The three fields are read back from the record
  unchanged, so the descriptor is recovered; the conversion of a list is the conversion
  of each element, in the same order and of the same length.
\<close>

theorem tool_conversion_round_trip:
  "convert_tool_to_openai_param tool =
     PDict [(ascii ''type'', PStr (ascii ''function'')),
            (ascii ''function'',
             PDict [(ascii ''name'', PStr (name tool)),
                    (ascii ''description'', opt_str (description tool)),
                    (ascii ''parameters'', inputSchema tool)])]
   \<and> openai_param_to_tool (convert_tool_to_openai_param tool) = Some tool
   \<and> convert_tools_to_openai_params tools = map convert_tool_to_openai_param tools
   \<and> length (convert_tools_to_openai_params tools) = length tools
   \<and> map openai_param_to_tool (convert_tools_to_openai_params tools) = map Some tools"
  by (simp add: openai_param_round_trip convert_tools_to_openai_params_def comp_def)
    (simp add: convert_tool_to_openai_param_def)

text \<open>
  Claim C9 at the descriptor of the weather tool, whose schema is an object with
  properties and required names, and at a list of two descriptors, one of them without
  description.
\<close>

theorem tool_conversion_round_trip_witness:
  "openai_param_to_tool (convert_tool_to_openai_param weather_tool) = Some weather_tool
   \<and> map openai_param_to_tool (convert_tools_to_openai_params [weather_tool, geo_tool])
       = [Some weather_tool, Some geo_tool]
   \<and> getitem (convert_tool_to_openai_param weather_tool) (ascii ''type'')
       = Inr (PStr (ascii ''function''))"
proof -
  note t = tool_conversion_round_trip[of weather_tool "[weather_tool, geo_tool]"]
  have a: "getitem (convert_tool_to_openai_param weather_tool) (ascii ''type'')
       = Inr (PStr (ascii ''function''))"
    unfolding t[THEN conjunct1] by (simp add: ascii_def)
  note b = t[THEN conjunct2, THEN conjunct1]
  have c: "map openai_param_to_tool (convert_tools_to_openai_params [weather_tool, geo_tool])
       = [Some weather_tool, Some geo_tool]"
    using t[THEN conjunct2, THEN conjunct2, THEN conjunct2, THEN conjunct2] by simp
  show ?thesis by (intro conjI) (rule b, rule c, rule a)
qed

section \<open>A reply that asks for no tool\<close>

lemma after_reply_plain:
  assumes "finish_reason result \<noteq> reason_tool_calls"
  shows "after_reply env result s =
     (case advance_step (planning s) of
        (True, p') \<Rightarrow> (Continue, s\<lparr>planning := p'\<rparr>)
      | (False, p') \<Rightarrow>
          (let s2 = emit (Yield no_next_step_msg) (s\<lparr>planning := p'\<rparr>) in
           case llm_call env [(role_user, final_request (Planning_str (planning s2)))] None s2 of
             (Inl e, s3) \<Rightarrow> (Raised e, s3)
           | (Inr answer, s3) \<Rightarrow> (Final (content answer), s3)))"
  using assms by (intro after_reply_without_request) simp

lemma after_reply_plain_frame:
  assumes "finish_reason result \<noteq> reason_tool_calls"
  shows "info_list (planning (snd (after_reply env result s))) = info_list (planning s)"
    and "plan_steps (planning (snd (after_reply env result s))) = plan_steps (planning s)"
    and "requirement (planning (snd (after_reply env result s))) = requirement (planning s)"
proof -
  obtain b p' where a: "advance_step (planning s) = (b, p')"
    by (cases "advance_step (planning s)")
  note fa = same_plan_advance[OF a]
  let ?s2 = "emit (Yield no_next_step_msg) (s\<lparr>planning := p'\<rparr>)"
  obtain r3 s3 where lc:
    "llm_call env [(role_user, final_request (Planning_str p'))] None ?s2 = (r3, s3)"
    by (cases "llm_call env [(role_user, final_request (Planning_str p'))] None ?s2")
  note f3 = llm_call_frame[OF lc]
  have "planning (snd (after_reply env result s)) = p'"
    unfolding after_reply_plain[OF assms] using a lc f3
    by (cases b; cases r3) (simp_all add: Let_def)
  then show "info_list (planning (snd (after_reply env result s))) = info_list (planning s)"
    and "plan_steps (planning (snd (after_reply env result s))) = plan_steps (planning s)"
    and "requirement (planning (snd (after_reply env result s))) = requirement (planning s)"
    using fa by simp_all
qed

lemma run_round_reply:
  assumes "chat_completions_create env [(role_user, Planning_str (planning s))] (Some tools)
      (world s) = (Inr result, w')"
  shows "run_round env tools s =
     after_reply env result
       ((emit (LLMRequest [(role_user, Planning_str (planning s))] (Some tools))
          (emit (Yield (str_of_step (get_current_step (planning s))))
             (emit (Yield separator) (s\<lparr>rounds := Suc (rounds s)\<rparr>))))\<lparr>world := w'\<rparr>)"
proof -
  let ?s1 = "emit (Yield separator) (s\<lparr>rounds := Suc (rounds s)\<rparr>)"
  let ?s2 = "emit (Yield (str_of_step (get_current_step (planning ?s1)))) ?s1"
  have "chat_completions_create env [(role_user, Planning_str (planning ?s2))] (Some tools)
      (world ?s2) = (Inr result, w')"
    using assms by simp
  from llm_call_reply[OF this] show ?thesis by (simp add: run_round_def Let_def)
qed

text \<open>
  Claim C10. After a reply whose finish reason is not \<^verbatim>\<open>tool_calls\<close>, the rest of the
  round leaves the observations and the steps as they were, and it is the same for every
  such reply: the outcome, the trace, the plan and the final answer do not depend on the
  content of the reply. For the round as a whole: the observations and the steps after
  the round are those before it, and the round equals the one where the content and the
  tool calls of the reply are erased.
\<close>

theorem plain_reply_is_discarded:
  "(finish_reason result \<noteq> reason_tool_calls \<longrightarrow>
      info_list (planning (snd (after_reply env result s))) = info_list (planning s)
      \<and> plan_steps (planning (snd (after_reply env result s))) = plan_steps (planning s)
      \<and> (finish_reason other \<noteq> reason_tool_calls \<longrightarrow>
           after_reply env other s = after_reply env result s))
   \<and> (chat_completions_create env [(role_user, Planning_str (planning s))] (Some tools)
         (world s) = (Inr result, w')
       \<and> finish_reason result \<noteq> reason_tool_calls \<longrightarrow>
      info_list (planning (snd (run_round env tools s))) = info_list (planning s)
      \<and> plan_steps (planning (snd (run_round env tools s))) = plan_steps (planning s)
      \<and> run_round env tools s =
          after_reply env (result\<lparr>content := [], tool_calls := []\<rparr>)
            ((emit (LLMRequest [(role_user, Planning_str (planning s))] (Some tools))
               (emit (Yield (str_of_step (get_current_step (planning s))))
                  (emit (Yield separator) (s\<lparr>rounds := Suc (rounds s)\<rparr>))))\<lparr>world := w'\<rparr>))"
proof -
  have 1: "finish_reason result \<noteq> reason_tool_calls \<longrightarrow>
      info_list (planning (snd (after_reply env result s))) = info_list (planning s)
      \<and> plan_steps (planning (snd (after_reply env result s))) = plan_steps (planning s)
      \<and> (finish_reason other \<noteq> reason_tool_calls \<longrightarrow>
           after_reply env other s = after_reply env result s)"
    using after_reply_plain_frame[of result env s] after_reply_plain[of result env s]
      after_reply_plain[of other env s] by simp
  have 2: "chat_completions_create env [(role_user, Planning_str (planning s))] (Some tools)
         (world s) = (Inr result, w')
       \<and> finish_reason result \<noteq> reason_tool_calls \<longrightarrow>
      info_list (planning (snd (run_round env tools s))) = info_list (planning s)
      \<and> plan_steps (planning (snd (run_round env tools s))) = plan_steps (planning s)
      \<and> run_round env tools s =
          after_reply env (result\<lparr>content := [], tool_calls := []\<rparr>)
            ((emit (LLMRequest [(role_user, Planning_str (planning s))] (Some tools))
               (emit (Yield (str_of_step (get_current_step (planning s))))
                  (emit (Yield separator) (s\<lparr>rounds := Suc (rounds s)\<rparr>))))\<lparr>world := w'\<rparr>)"
  proof (intro impI, elim conjE)
    let ?s3 = "(emit (LLMRequest [(role_user, Planning_str (planning s))] (Some tools))
               (emit (Yield (str_of_step (get_current_step (planning s))))
                  (emit (Yield separator) (s\<lparr>rounds := Suc (rounds s)\<rparr>))))\<lparr>world := w'\<rparr>"
    assume c: "chat_completions_create env [(role_user, Planning_str (planning s))] (Some tools)
         (world s) = (Inr result, w')"
      and f: "finish_reason result \<noteq> reason_tool_calls"
    have r: "run_round env tools s = after_reply env result ?s3"
      using c by (rule run_round_reply)
    have f': "finish_reason (result\<lparr>content := [], tool_calls := []\<rparr>) \<noteq> reason_tool_calls"
      using f by simp
    have e: "after_reply env result ?s3
        = after_reply env (result\<lparr>content := [], tool_calls := []\<rparr>) ?s3"
      unfolding after_reply_plain[OF f] after_reply_plain[OF f'] by simp
    show "info_list (planning (snd (run_round env tools s))) = info_list (planning s)
      \<and> plan_steps (planning (snd (run_round env tools s))) = plan_steps (planning s)
      \<and> run_round env tools s
          = after_reply env (result\<lparr>content := [], tool_calls := []\<rparr>) ?s3"
      using r e after_reply_plain_frame[OF f, of env ?s3] by simp
  qed
  show ?thesis by (intro conjI) (rule 1, rule 2)
qed

lemma plain_reply_fields [simp]:
  "finish_reason (plain_reply a) \<noteq> reason_tool_calls" "content (plain_reply a) = a"
  "tool_calls (plain_reply a) = []"
  by (simp_all add: plain_reply_def reason_tool_calls_def ascii_def)

text \<open>
  Claim C10 on the plan of two steps, with two replies of different content.
\<close>

theorem plain_reply_is_discarded_witness:
  "info_list (planning (snd (run_round env_never_done [] two_steps_state))) = []
   \<and> plan_steps (planning (snd (run_round env_never_done [] two_steps_state))) = [[97], [98]]
   \<and> after_reply env_never_done (plain_reply [120]) two_steps_state
       = after_reply env_never_done (plain_reply [111, 107]) two_steps_state"
proof -
  have c: "chat_completions_create env_never_done
      [(role_user, Planning_str (planning two_steps_state))] (Some []) (world two_steps_state)
      = (Inr (plain_reply [111, 107]), ())"
    by (simp add: env_never_done_def)
  note t = plain_reply_is_discarded[where result = "plain_reply [111, 107]" and other = "plain_reply [120]"
      and env = env_never_done and s = two_steps_state and tools = "[]" and w' = "()"]
  have f: "finish_reason (plain_reply [111, 107]) \<noteq> reason_tool_calls" by simp
  have g: "finish_reason (plain_reply [120]) \<noteq> reason_tool_calls" by simp
  note a = t[THEN conjunct1, THEN mp, OF f, THEN conjunct2, THEN conjunct2, THEN mp, OF g]
  note b = t[THEN conjunct2, THEN mp, OF conjI, OF c f]
  have p: "info_list (planning two_steps_state) = []"
    "plan_steps (planning two_steps_state) = [[97], [98]]"
    by (simp_all add: two_steps_state_def two_steps_def set_plan_steps_def Planning_init_def)
  have b1: "info_list (planning (snd (run_round env_never_done [] two_steps_state))) = []"
    using b[THEN conjunct1] p(1) by simp
  have b2: "plan_steps (planning (snd (run_round env_never_done [] two_steps_state)))
      = [[97], [98]]"
    using b[THEN conjunct2, THEN conjunct1] p(2) by simp
  show ?thesis by (intro conjI) (rule b1, rule b2, rule a)
qed

section \<open>The round that ends the plan\<close>

lemma run_round_finalizes:
  assumes q: "replies_without_tool_request env"
    and last_step: "\<not> current_step_index (planning s) + 1 < int (length (plan_steps (planning s)))"
  shows "\<exists>final_answer s'. run_round env tools s = (Final final_answer, s')
     \<and> rounds s' = Suc (rounds s) \<and> planning s' = planning s \<and> client s' = client s
     \<and> trace s' = trace s @
         [Yield separator, Yield (str_of_step (get_current_step (planning s))),
          LLMRequest [(role_user, Planning_str (planning s))] (Some tools),
          Yield no_next_step_msg,
          LLMRequest [(role_user, final_request (Planning_str (planning s)))] None]"
proof -
  let ?m = "[(role_user, Planning_str (planning s))]"
  obtain r w' where c: "chat_completions_create env ?m (Some tools) (world s) = (Inr r, w')"
    and nr: "finish_reason r = reason_tool_calls \<longrightarrow> tool_calls r = []"
    using q unfolding replies_without_tool_request_def by blast
  let ?s3 = "(emit (LLMRequest ?m (Some tools))
          (emit (Yield (str_of_step (get_current_step (planning s))))
             (emit (Yield separator) (s\<lparr>rounds := Suc (rounds s)\<rparr>))))\<lparr>world := w'\<rparr>"
  have rr: "run_round env tools s = after_reply env r ?s3"
    using c by (rule run_round_reply)
  have adv: "advance_step (planning ?s3) = (False, planning s)"
    using last_step by (simp add: advance_step_def)
  let ?s4 = "emit (Yield no_next_step_msg) (?s3\<lparr>planning := planning s\<rparr>)"
  let ?f = "[(role_user, final_request (Planning_str (planning s)))]"
  obtain answer w'' where c2: "chat_completions_create env ?f None (world ?s4) = (Inr answer, w'')"
    using q unfolding replies_without_tool_request_def by blast
  have lc: "llm_call env ?f None ?s4 = (Inr answer, (emit (LLMRequest ?f None) ?s4)\<lparr>world := w''\<rparr>)"
    using c2 by (rule llm_call_reply)
  have "after_reply env r ?s3
      = (Final (content answer), (emit (LLMRequest ?f None) ?s4)\<lparr>world := w''\<rparr>)"
    unfolding after_reply_without_request[OF nr] adv using lc by (simp add: Let_def)
  then show ?thesis unfolding rr by simp
qed

lemma Planning_str_without_plan:
  "Planning_str (Planning_init user_input)
     = requirement_label @ user_input @ [newline] @ info_label @ none_line
       @ next_label @ unset_label"
  by (simp add: Planning_str_def Planning_init_def get_current_step_def)

lemma empty_plan_is_init:
  "steps_from_text plan_text = [] \<Longrightarrow>
     set_plan_steps_from_text plan_text (Planning_init user_input) = Planning_init user_input"
  by (simp add: set_plan_steps_from_text_def set_plan_steps_def Planning_init_def)

lemma run_with_empty_plan:
  assumes prompt: "build_system_prompt_with_tools env tools = Inr planning_prompt"
    and plan: "chat_completions_create env
        [(role_system, planning_prompt), (role_user, user_input)] None w = (Inr planning_result, w1)"
    and empty: "steps_from_text (content planning_result) = []"
    and opens: "session_opens env"
    and quiet: "replies_without_tool_request env"
  shows "\<exists>answer.
     trace (snd (run env tools user_input w)) =
       [LLMRequest [(role_system, planning_prompt), (role_user, user_input)] None,
        Yield plan_header, Yield (Planning_str (Planning_init user_input)), Yield separator,
        SessionOpen, SessionInitialize,
        Yield separator, Yield (ascii ''None''),
        LLMRequest [(role_user, Planning_str (Planning_init user_input))] (Some tools),
        Yield no_next_step_msg,
        LLMRequest [(role_user, final_request (Planning_str (Planning_init user_input)))] None,
        SessionClose]
       @ (if answer = [] then [] else [Yield (final_answer_event answer)])
     \<and> fst (run env tools user_input w)
         = (if answer = [] then Inl (Error LLMInvokeError exhausted_msg) else Inr ())
     \<and> rounds (snd (run env tools user_input w)) = 1
     \<and> planning (snd (run env tools user_input w)) = Planning_init user_input"
proof -
  let ?s0 = "run_init user_input w"
  let ?m = "[(role_system, planning_prompt), (role_user, user_input)]"
  let ?s1 = "(emit (LLMRequest ?m None) ?s0)\<lparr>world := w1\<rparr>"
  have lc: "llm_call env ?m None ?s0 = (Inr planning_result, ?s1)"
    using plan by (intro llm_call_reply) (simp add: run_init_def)
  let ?s2 = "?s1\<lparr>planning := set_plan_steps_from_text (content planning_result) (planning ?s1)\<rparr>"
  have p2: "planning ?s2 = Planning_init user_input"
    using empty_plan_is_init[OF empty] by (simp add: run_init_def)
  let ?s3 = "emit (Yield separator) (emit (Yield (Planning_str (planning ?s2)))
                              (emit (Yield plan_header) ?s2))"
  obtain s4 where cn: "connect env ?s3 = (Inr (), s4)"
    and f4: "planning s4 = planning ?s3" "rounds s4 = rounds ?s3"
      "trace s4 = trace ?s3 @ [SessionOpen, SessionInitialize]"
    using connect_opens[OF opens, of ?s3] by blast
  have p4: "planning s4 = Planning_init user_input" using f4 p2 by simp
  have t4: "trace s4 = [LLMRequest ?m None, Yield plan_header,
      Yield (Planning_str (Planning_init user_input)), Yield separator,
      SessionOpen, SessionInitialize]"
    using f4 p2 by (simp add: run_init_def)
  have r4: "rounds s4 = 0" using f4 by (simp add: run_init_def)
  have last_step:
    "\<not> current_step_index (planning s4) + 1 < int (length (plan_steps (planning s4)))"
    unfolding p4 by (simp add: Planning_init_def)
  obtain final_answer s5 where rr: "run_round env tools s4 = (Final final_answer, s5)"
    and f5: "rounds s5 = Suc (rounds s4)" "planning s5 = planning s4"
      "trace s5 = trace s4 @
         [Yield separator, Yield (str_of_step (get_current_step (planning s4))),
          LLMRequest [(role_user, Planning_str (planning s4))] (Some tools),
          Yield no_next_step_msg,
          LLMRequest [(role_user, final_request (Planning_str (planning s4)))] None]"
    using run_round_finalizes[OF quiet last_step] by blast
  have cur: "str_of_step (get_current_step (Planning_init user_input)) = ascii ''None''"
    by (simp add: str_of_step_def get_current_step_def Planning_init_def)
  have rl: "rounds_loop env tools max_rounds s4 = (Inr final_answer, s5)"
  proof -
    have "rounds_loop env tools (Suc 5) s4 = (Inr final_answer, s5)"
      unfolding rounds_loop.simps(2) rr by simp
    then show ?thesis by (simp add: max_rounds_def)
  qed
  have run: "run env tools user_input w =
      (if final_answer = [] then (Inl (Error LLMInvokeError exhausted_msg), disconnect False s5)
       else (Inr (), emit (Yield (final_answer_event final_answer)) (disconnect False s5)))"
    using prompt lc cn rl by (simp add: run_def Let_def)
  show ?thesis
    by (rule exI[of _ final_answer]) (simp add: run f5 t4 p4 r4 cur)
qed

section \<open>A requested tool\<close>

lemma yields_append [simp]: "yields (xs @ ys) = yields xs @ yields ys"
  by (induction xs rule: yields.induct) auto

text \<open>
  With a cache of converted descriptors the first tool call of a reply ends the run:
  its event is yielded, the tool is not invoked, the plan is not changed.
\<close>

lemma tool_calls_loop_converted:
  assumes c: "tools_cache (client s) = convert_tools_to_openai_params cached"
  shows "\<exists>e s'. tool_calls_loop env ((function_name, function_args) # rest) s = (Inl e, s')
     \<and> planning s' = planning s \<and> rounds s' = rounds s
     \<and> tool_invocations (trace s') = tool_invocations (trace s)
     \<and> yields (trace s') = yields (trace s) @ [tool_event function_name function_args]
     \<and> (\<exists>raw'. tools_cache (client s') = convert_tools_to_openai_params raw')"
proof -
  let ?s1 = "emit (Yield (tool_event function_name function_args)) s"
  show ?thesis
  proof (cases "json_loads env function_args")
    case (Inl e)
    then show ?thesis using c by (auto simp: Let_def)
  next
    case (Inr args)
    have c1: "tools_cache (client ?s1) = convert_tools_to_openai_params cached"
      using c by simp
    obtain e s2 where ct: "call_tool env function_name args ?s1 = (Inl e, s2)"
      and f: "planning s2 = planning ?s1" "rounds s2 = rounds ?s1"
        "tool_invocations (trace s2) = tool_invocations (trace ?s1)"
        "\<exists>raw'. tools_cache (client s2) = convert_tools_to_openai_params raw'"
        "trace s2 = trace ?s1 @ (if session (client ?s1) \<and> cached = [] then [SessionListTools] else [])"
      using call_tool_converted[OF c1, of env function_name args] by blast
    have "tool_calls_loop env ((function_name, function_args) # rest) s = (Inl e, s2)"
      using Inr ct by (simp add: Let_def)
    then show ?thesis using f by auto
  qed
qed

lemma tool_calls_loop_converted_any:
  assumes c: "tools_cache (client s) = convert_tools_to_openai_params cached"
    and r: "tool_calls_loop env calls s = (res, s')"
  shows "planning s' = planning s \<and> tool_invocations (trace s') = tool_invocations (trace s)
     \<and> (\<exists>raw'. tools_cache (client s') = convert_tools_to_openai_params raw')
     \<and> (calls \<noteq> [] \<longrightarrow> (\<exists>e. res = Inl e))"
proof (cases calls)
  case Nil
  then show ?thesis using c r by auto
next
  case (Cons call rest)
  obtain function_name function_args where "call = (function_name, function_args)"
    by (cases call)
  then show ?thesis
    using tool_calls_loop_converted[OF c, of env function_name function_args rest] r Cons
    by auto
qed

lemma after_reply_converted:
  assumes c: "tools_cache (client s) = convert_tools_to_openai_params cached"
    and r: "after_reply env result s = (res, s')"
  shows "info_list (planning s') = info_list (planning s)
     \<and> tool_invocations (trace s') = tool_invocations (trace s)
     \<and> (\<exists>raw'. tools_cache (client s') = convert_tools_to_openai_params raw')"
proof -
  obtain r1 s1 where t: "(if finish_reason result = reason_tool_calls
            then tool_calls_loop env (tool_calls result) s else (Inr (), s)) = (r1, s1)"
    by (cases "(if finish_reason result = reason_tool_calls
            then tool_calls_loop env (tool_calls result) s else (Inr (), s))")
  have f1: "planning s1 = planning s \<and> tool_invocations (trace s1) = tool_invocations (trace s)
     \<and> (\<exists>raw'. tools_cache (client s1) = convert_tools_to_openai_params raw')"
  proof (cases "finish_reason result = reason_tool_calls")
    case True
    then have "tool_calls_loop env (tool_calls result) s = (r1, s1)" using t by simp
    from tool_calls_loop_converted_any[OF c this] show ?thesis by simp
  next
    case False
    then show ?thesis using t c by auto
  qed
  show ?thesis
  proof (cases r1)
    case (Inl e)
    then show ?thesis using r t f1 by (auto simp: after_reply_def)
  next
    case (Inr u)
    obtain b p' where a: "advance_step (planning s1) = (b, p')"
      by (cases "advance_step (planning s1)")
    note fa = same_plan_advance[OF a]
    show ?thesis
    proof (cases b)
      case True
      then show ?thesis using r t f1 Inr a fa by (auto simp: after_reply_def)
    next
      case False
      let ?s2 = "emit (Yield no_next_step_msg) (s1\<lparr>planning := p'\<rparr>)"
      obtain r3 s3 where lc:
        "llm_call env [(role_user, final_request (Planning_str (planning ?s2)))] None ?s2 = (r3, s3)"
        by (cases "llm_call env [(role_user, final_request (Planning_str (planning ?s2)))] None ?s2")
      note f3 = llm_call_frame[OF lc]
      have "(res, s') = (case r3 of Inl e \<Rightarrow> (Raised e, s3) | Inr answer \<Rightarrow> (Final (content answer), s3))"
        using r t Inr a False lc by (simp add: after_reply_def Let_def)
      then have "s' = s3" by (cases r3) auto
      then show ?thesis using f1 fa f3 by auto
    qed
  qed
qed

lemma run_round_converted:
  assumes c: "tools_cache (client s) = convert_tools_to_openai_params cached"
    and r: "run_round env tools s = (res, s')"
  shows "info_list (planning s') = info_list (planning s)
     \<and> tool_invocations (trace s') = tool_invocations (trace s)
     \<and> (\<exists>raw'. tools_cache (client s') = convert_tools_to_openai_params raw')"
proof -
  let ?s1 = "emit (Yield separator) (s\<lparr>rounds := Suc (rounds s)\<rparr>)"
  let ?s2 = "emit (Yield (str_of_step (get_current_step (planning ?s1)))) ?s1"
  obtain r3 s3 where lc:
    "llm_call env [(role_user, Planning_str (planning ?s2))] (Some tools) ?s2 = (r3, s3)"
    by (cases "llm_call env [(role_user, Planning_str (planning ?s2))] (Some tools) ?s2")
  note f3 = llm_call_frame[OF lc]
  have c3: "tools_cache (client s3) = convert_tools_to_openai_params cached"
    using f3 c by simp
  show ?thesis
  proof (cases r3)
    case (Inl e)
    then show ?thesis using r lc f3 c by (auto simp: run_round_def Let_def)
  next
    case (Inr result)
    then have "after_reply env result s3 = (res, s')"
      using r lc by (simp add: run_round_def Let_def)
    from after_reply_converted[OF c3 this] show ?thesis using f3 by simp
  qed
qed

lemma rounds_loop_converted:
  "tools_cache (client s) = convert_tools_to_openai_params cached \<Longrightarrow>
   rounds_loop env tools n s = (res, s') \<Longrightarrow>
     info_list (planning s') = info_list (planning s)
     \<and> tool_invocations (trace s') = tool_invocations (trace s)"
proof (induction n arbitrary: s cached)
  case 0
  then show ?case by simp
next
  case (Suc n)
  obtain r1 s1 where rr: "run_round env tools s = (r1, s1)"
    by (cases "run_round env tools s")
  note f1 = run_round_converted[OF Suc.prems(1) rr]
  show ?case
  proof (cases r1)
    case (Raised e)
    then show ?thesis using Suc.prems rr f1 by auto
  next
    case Continue
    then have l: "rounds_loop env tools n s1 = (res, s')" using Suc.prems rr by simp
    obtain raw' where c1: "tools_cache (client s1) = convert_tools_to_openai_params raw'"
      using f1 by blast
    from Suc.IH[OF c1 l] show ?thesis using f1 by simp
  next
    case (Final a)
    then show ?thesis using Suc.prems rr f1 by auto
  qed
qed

lemma connect_frame_more:
  assumes "connect env s = (res, s')"
  shows "tools_cache (client s') = tools_cache (client s)"
    and "tool_invocations (trace s') = tool_invocations (trace s)"
  using assms by (auto simp: connect_def Let_def split: prod.splits sum.splits)

text \<open>No run invokes a tool, and no run appends an observation.\<close>

lemma run_never_invokes:
  "tool_invocations (trace (snd (run env tools user_input w))) = []
   \<and> info_list (planning (snd (run env tools user_input w))) = []"
proof (cases "build_system_prompt_with_tools env tools")
  case (Inl e)
  then show ?thesis by (simp add: run_def run_init_def Planning_init_def)
next
  case (Inr planning_prompt)
  let ?s0 = "run_init user_input w"
  obtain r1 s1 where lc:
    "llm_call env [(role_system, planning_prompt), (role_user, user_input)] None ?s0 = (r1, s1)"
    by (cases "llm_call env [(role_system, planning_prompt), (role_user, user_input)] None ?s0")
  note f1 = llm_call_frame[OF lc]
  have i1: "tool_invocations (trace s1) = []" "info_list (planning s1) = []"
    "tools_cache (client s1) = []"
    using f1 by (simp_all add: run_init_def Planning_init_def GaoDeMCPClient_init_def)
  show ?thesis
  proof (cases r1)
    case (Inl e)
    then show ?thesis using Inr lc i1 by (simp add: run_def Let_def)
  next
    case pr: (Inr planning_result)
    let ?s2 = "s1\<lparr>planning := set_plan_steps_from_text (content planning_result) (planning s1)\<rparr>"
    let ?s3 = "emit (Yield separator) (emit (Yield (Planning_str (planning ?s2)))
                              (emit (Yield plan_header) ?s2))"
    have i3: "tool_invocations (trace ?s3) = []" "info_list (planning ?s3) = []"
      "tools_cache (client ?s3) = []"
      using i1 by (simp_all add: set_plan_steps_from_text_fields)
    obtain r4 s4 where cn: "connect env ?s3 = (r4, s4)" by (cases "connect env ?s3")
    note f4 = connect_frame[OF cn] connect_frame_more[OF cn]
    have i4: "tool_invocations (trace s4) = []" "info_list (planning s4) = []"
      using f4 i3 by simp_all
    have c4: "tools_cache (client s4) = convert_tools_to_openai_params []"
      using f4 i3 by (simp add: convert_tools_to_openai_params_def)
    show ?thesis
    proof (cases r4)
      case (Inl e)
      then show ?thesis using Inr lc pr cn i4 by (simp add: run_def Let_def)
    next
      case cu: (Inr u)
      obtain r5 s5 where rl: "rounds_loop env tools max_rounds s4 = (r5, s5)"
        by (cases "rounds_loop env tools max_rounds s4")
      from rounds_loop_converted[OF c4 rl] i4
      have i5: "tool_invocations (trace s5) = []" "info_list (planning s5) = []" by simp_all
      show ?thesis using Inr lc pr cn cu rl i5
        by (cases r5) (simp_all add: run_def Let_def disconnect_def)
    qed
  qed
qed

lemma tool_reply_fields [simp]:
  "finish_reason (tool_reply calls) = reason_tool_calls" "tool_calls (tool_reply calls) = calls"
  by (simp_all add: tool_reply_def reason_tool_calls_def)

lemma loads_demo_weather: "loads_demo weather_args = Inr (PDict [(ascii ''city'', PStr [19978, 28023])])"
  by (simp add: loads_demo_def)

lemma scenario_A_plan:
  "set_plan_steps_from_text scenario_A_text (Planning_init u)
     = \<lparr>requirement = u, info_list = [],
        plan_steps = [[26597, 22825, 27668], [26597, 26223, 28857]], current_step_index = 0\<rparr>"
  by (simp add: set_plan_steps_from_text_def set_plan_steps_def Planning_init_def
      scenario_A_text_def scenario_A_steps)

section \<open>The first tool request of a run\<close>

lemma call_tool_first:
  assumes se: "session (client s)" and em: "tools_cache (client s) = []"
    and cat: "session_list_tools env (world s) = (Inr fetched, w')"
  shows "call_tool env tool_name params s =
     (Inl (if fetched = [] then Error ValueError (unregistered_msg tool_name)
           else key_error (ascii ''name'')),
      (emit SessionListTools s)\<lparr>world := w',
         client := (client s)\<lparr>tools_cache := convert_tools_to_openai_params fetched\<rparr>\<rparr>)"
  using se em cat
  by (simp add: call_tool_def list_tools_result registered_names_converted)

lemma call_tool_cached:
  assumes se: "session (client s)"
    and c: "tools_cache (client s) = convert_tools_to_openai_params cached" and ne: "cached \<noteq> []"
  shows "call_tool env tool_name params s = (Inl (key_error (ascii ''name'')), s)"
proof -
  have "tools_cache (client s) \<noteq> []"
    using c ne by (simp add: convert_tools_to_openai_params_def)
  then show ?thesis using se c ne
    by (simp add: call_tool_def registered_names_converted)
qed

lemma run_first_tool_request:
  assumes prompt: "build_system_prompt_with_tools env tools = Inr planning_prompt"
    and plan: "chat_completions_create env
        [(role_system, planning_prompt), (role_user, user_input)] None w = (Inr planning_result, w1)"
    and opens: "session_opens env"
    and asks: "\<forall>messages w. \<exists>w'. chat_completions_create env messages (Some tools) w = (Inr result, w')"
    and fr: "finish_reason result = reason_tool_calls"
    and tc: "tool_calls result = (function_name, function_args) # rest"
    and js: "json_loads env function_args = Inr args"
    and cat: "\<forall>w. \<exists>w'. session_list_tools env w = (Inr fetched, w')"
  shows "fst (run env tools user_input w)
     = Inl (if fetched = [] then Error ValueError (unregistered_msg function_name)
            else key_error (ascii ''name''))"
    and "trace (snd (run env tools user_input w)) =
       [LLMRequest [(role_system, planning_prompt), (role_user, user_input)] None,
        Yield plan_header,
        Yield (Planning_str (set_plan_steps_from_text (content planning_result)
                 (Planning_init user_input))),
        Yield separator, SessionOpen, SessionInitialize, Yield separator,
        Yield (str_of_step (get_current_step (set_plan_steps_from_text (content planning_result)
                 (Planning_init user_input)))),
        LLMRequest [(role_user, Planning_str (set_plan_steps_from_text (content planning_result)
                 (Planning_init user_input)))] (Some tools),
        Yield (tool_event function_name function_args), SessionListTools, SessionClose]"
    and "rounds (snd (run env tools user_input w)) = 1"
proof -
  let ?P = "set_plan_steps_from_text (content planning_result) (Planning_init user_input)"
  let ?s0 = "run_init user_input w"
  let ?m = "[(role_system, planning_prompt), (role_user, user_input)]"
  let ?s1 = "(emit (LLMRequest ?m None) ?s0)\<lparr>world := w1\<rparr>"
  have lc: "llm_call env ?m None ?s0 = (Inr planning_result, ?s1)"
    using plan by (intro llm_call_reply) (simp add: run_init_def)
  let ?s2 = "?s1\<lparr>planning := set_plan_steps_from_text (content planning_result) (planning ?s1)\<rparr>"
  have p2: "planning ?s2 = ?P" by (simp add: run_init_def)
  let ?s3 = "emit (Yield separator) (emit (Yield (Planning_str (planning ?s2)))
                              (emit (Yield plan_header) ?s2))"
  obtain s4 where cn: "connect env ?s3 = (Inr (), s4)"
    and f4: "planning s4 = planning ?s3" "rounds s4 = rounds ?s3"
      "trace s4 = trace ?s3 @ [SessionOpen, SessionInitialize]"
      "client s4 = (client ?s3)\<lparr>session := True\<rparr>"
    using connect_opens[OF opens, of ?s3] by blast
  have p4: "planning s4 = ?P" using f4 p2 by simp
  have t4: "trace s4 = [LLMRequest ?m None, Yield plan_header, Yield (Planning_str ?P),
      Yield separator, SessionOpen, SessionInitialize]"
    using f4 p2 by (simp add: run_init_def)
  have r4: "rounds s4 = 0" using f4 by (simp add: run_init_def)
  have c4: "session (client s4)" "tools_cache (client s4) = []"
    using f4 by (simp_all add: run_init_def GaoDeMCPClient_init_def)
  let ?q = "[(role_user, Planning_str (planning s4))]"
  obtain w5 where c5: "chat_completions_create env ?q (Some tools) (world s4) = (Inr result, w5)"
    using asks by blast
  let ?s5 = "(emit (LLMRequest ?q (Some tools))
          (emit (Yield (str_of_step (get_current_step (planning s4))))
             (emit (Yield separator) (s4\<lparr>rounds := Suc (rounds s4)\<rparr>))))\<lparr>world := w5\<rparr>"
  have rr: "run_round env tools s4 = after_reply env result ?s5"
    using c5 by (rule run_round_reply)
  let ?s6 = "emit (Yield (tool_event function_name function_args)) ?s5"
  obtain w7 where c7: "session_list_tools env (world ?s6) = (Inr fetched, w7)"
    using cat by blast
  let ?e = "if fetched = [] then Error ValueError (unregistered_msg function_name)
           else key_error (ascii ''name'')"
  let ?s7 = "(emit SessionListTools ?s6)\<lparr>world := w7,
         client := (client ?s6)\<lparr>tools_cache := convert_tools_to_openai_params fetched\<rparr>\<rparr>"
  have ct: "call_tool env function_name args ?s6 = (Inl ?e, ?s7)"
    using c4 c7 by (intro call_tool_first) simp_all
  have tl: "tool_calls_loop env ((function_name, function_args) # rest) ?s5 = (Inl ?e, ?s7)"
    using js ct by (simp add: Let_def)
  have ar: "after_reply env result ?s5 = (Raised ?e, ?s7)"
    unfolding after_reply_def using fr tc tl by simp
  have rl: "rounds_loop env tools max_rounds s4 = (Inl ?e, ?s7)"
  proof -
    have "rounds_loop env tools (Suc 5) s4 = (Inl ?e, ?s7)"
      unfolding rounds_loop.simps(2) rr ar by simp
    then show ?thesis by (simp add: max_rounds_def)
  qed
  have run: "run env tools user_input w = (Inl ?e, disconnect True ?s7)"
    using prompt lc cn rl by (simp add: run_def Let_def)
  show "fst (run env tools user_input w) = Inl ?e" by (simp add: run)
  show "trace (snd (run env tools user_input w)) =
       [LLMRequest ?m None, Yield plan_header, Yield (Planning_str ?P),
        Yield separator, SessionOpen, SessionInitialize, Yield separator,
        Yield (str_of_step (get_current_step ?P)),
        LLMRequest [(role_user, Planning_str ?P)] (Some tools),
        Yield (tool_event function_name function_args), SessionListTools, SessionClose]"
    by (simp add: run t4 p4)
  show "rounds (snd (run env tools user_input w)) = 1"
    by (simp add: run r4)
qed

section \<open>Claims about the tool calls\<close>

text \<open>
  Claim C2 says that a name absent from the catalog fails as not registered before any
  request to the tool session. With an empty cache the client first requests the list of
  tools from the session; when the list it receives is empty the call fails as not
  registered after that request. When the list holds the weather tool only, the unknown
  name fails after the same request with \<^verbatim>\<open>KeyError\<close>.
\<close>

theorem unregistered_tool_lists_tools_first:
  "fst (call_tool env_tool_on_empty_plan (ascii ''maps_unknown'') (PDict []) connected_state)
     = Inl (Error ValueError (unregistered_msg (ascii ''maps_unknown'')))
   \<and> trace (snd (call_tool env_tool_on_empty_plan (ascii ''maps_unknown'') (PDict [])
        connected_state)) = [SessionListTools]
   \<and> ascii ''maps_unknown'' \<notin> name ` set [weather_tool]
   \<and> fst (call_tool env_scenario_C (ascii ''maps_unknown'') (PDict []) connected_state)
       = Inl (key_error (ascii ''name''))
   \<and> trace (snd (call_tool env_scenario_C (ascii ''maps_unknown'') (PDict [])
        connected_state)) = [SessionListTools]"
proof -
  have se: "session (client connected_state)" "tools_cache (client connected_state) = []"
    "trace connected_state = []"
    by (simp_all add: connected_state_def run_init_def)
  have c1: "session_list_tools env_tool_on_empty_plan (world connected_state) = (Inr [], ())"
    by (simp add: env_tool_on_empty_plan_def)
  have c2: "session_list_tools env_scenario_C (world connected_state) = (Inr [weather_tool], ())"
    by (simp add: env_scenario_C_def)
  have n: "ascii ''maps_unknown'' \<notin> name ` set [weather_tool]"
    by (simp add: weather_tool_def ascii_def)
  show ?thesis
    unfolding call_tool_first[OF se(1,2) c1] call_tool_first[OF se(1,2) c2]
    using n se(3) by simp
qed

text \<open>
  Claim C2, amended. On a connected client whose cache holds converted descriptors, a
  name absent from the cached catalog, and from the catalog the session would list,
  always fails: the tool is never invoked on the session and the plan is unchanged, so no
  observation is appended, also in the loop over the tool calls of a reply. The only
  request to the session before the failure is the listing of the tools, made exactly
  when the cache is empty; when the session then lists no tool the failure is the error
  of a tool that is not registered.
\<close>

theorem unregistered_tool_never_invoked:
  "session (client s) \<and> tools_cache (client s) = convert_tools_to_openai_params cached
     \<and> tool_name \<notin> name ` set cached
     \<and> (\<forall>fetched w'. session_list_tools env (world s) = (Inr fetched, w')
           \<longrightarrow> tool_name \<notin> name ` set fetched)
   \<longrightarrow> (\<exists>e s'. call_tool env tool_name params s = (Inl e, s')
          \<and> planning s' = planning s
          \<and> tool_invocations (trace s') = tool_invocations (trace s)
          \<and> trace s' = trace s @ (if cached = [] then [SessionListTools] else [])
          \<and> (cached = [] \<and> (\<exists>w'. session_list_tools env (world s) = (Inr [], w'))
               \<longrightarrow> e = Error ValueError (unregistered_msg tool_name)))
       \<and> (\<exists>e s'. tool_calls_loop env ((tool_name, function_args) # rest) s = (Inl e, s')
            \<and> planning s' = planning s
            \<and> tool_invocations (trace s') = tool_invocations (trace s))"
proof (intro impI, elim conjE)
  assume se: "session (client s)"
    and c: "tools_cache (client s) = convert_tools_to_openai_params cached"
  obtain e s' where ct: "call_tool env tool_name params s = (Inl e, s')"
    and f: "planning s' = planning s" "tool_invocations (trace s') = tool_invocations (trace s)"
      "trace s' = trace s @ (if session (client s) \<and> cached = [] then [SessionListTools] else [])"
    using call_tool_converted[OF c, of env tool_name params] by blast
  have v: "cached = [] \<and> (\<exists>w'. session_list_tools env (world s) = (Inr [], w'))
               \<longrightarrow> e = Error ValueError (unregistered_msg tool_name)"
  proof (intro impI, elim conjE exE)
    fix w'
    assume em: "cached = []" and l: "session_list_tools env (world s) = (Inr [], w')"
    have "tools_cache (client s) = []"
      using c em by (simp add: convert_tools_to_openai_params_def)
    from call_tool_first[OF se this l, of tool_name params] ct
    show "e = Error ValueError (unregistered_msg tool_name)" by simp
  qed
  have a: "\<exists>e s'. call_tool env tool_name params s = (Inl e, s')
          \<and> planning s' = planning s
          \<and> tool_invocations (trace s') = tool_invocations (trace s)
          \<and> trace s' = trace s @ (if cached = [] then [SessionListTools] else [])
          \<and> (cached = [] \<and> (\<exists>w'. session_list_tools env (world s) = (Inr [], w'))
               \<longrightarrow> e = Error ValueError (unregistered_msg tool_name))"
    using ct f v se by auto
  have b: "\<exists>e s'. tool_calls_loop env ((tool_name, function_args) # rest) s = (Inl e, s')
            \<and> planning s' = planning s
            \<and> tool_invocations (trace s') = tool_invocations (trace s)"
    using tool_calls_loop_converted[OF c, of env tool_name function_args rest] by blast
  show "(\<exists>e s'. call_tool env tool_name params s = (Inl e, s')
          \<and> planning s' = planning s
          \<and> tool_invocations (trace s') = tool_invocations (trace s)
          \<and> trace s' = trace s @ (if cached = [] then [SessionListTools] else [])
          \<and> (cached = [] \<and> (\<exists>w'. session_list_tools env (world s) = (Inr [], w'))
               \<longrightarrow> e = Error ValueError (unregistered_msg tool_name)))
       \<and> (\<exists>e s'. tool_calls_loop env ((tool_name, function_args) # rest) s = (Inl e, s')
            \<and> planning s' = planning s
            \<and> tool_invocations (trace s') = tool_invocations (trace s))"
    using a b by (rule conjI)
qed

text \<open>
  Claim C2, amended, for a name that is absent from an empty catalog, with an empty
  cache, and for a name absent from a cache that holds the weather tool.
\<close>

theorem unregistered_tool_never_invoked_witness:
  "fst (call_tool env_tool_on_empty_plan (ascii ''maps_geo'') (PDict []) connected_state)
     = Inl (Error ValueError (unregistered_msg (ascii ''maps_geo'')))
   \<and> tool_invocations (trace (snd (call_tool env_tool_on_empty_plan (ascii ''maps_geo'')
        (PDict []) connected_state))) = []
   \<and> planning (snd (call_tool env_tool_on_empty_plan (ascii ''maps_geo'') (PDict [])
        connected_state)) = Planning_init []
   \<and> tool_invocations (trace (snd (call_tool env_scenario_C (ascii ''maps_geo'') (PDict [])
        cached_state))) = []
   \<and> trace (snd (call_tool env_scenario_C (ascii ''maps_geo'') (PDict []) cached_state)) = []"
proof -
  have se: "session (client connected_state)"
    "tools_cache (client connected_state) = convert_tools_to_openai_params []"
    "trace connected_state = []" "planning connected_state = Planning_init []"
    by (simp_all add: connected_state_def run_init_def convert_tools_to_openai_params_def)
  have l: "session_list_tools env_tool_on_empty_plan (world connected_state) = (Inr [], ())"
    by (simp add: env_tool_on_empty_plan_def)
  have h: "session (client connected_state)
     \<and> tools_cache (client connected_state) = convert_tools_to_openai_params []
     \<and> ascii ''maps_geo'' \<notin> name ` set []
     \<and> (\<forall>fetched w'. session_list_tools env_tool_on_empty_plan (world connected_state)
             = (Inr fetched, w') \<longrightarrow> ascii ''maps_geo'' \<notin> name ` set fetched)"
    using se l by simp
  note t = unregistered_tool_never_invoked[where s = connected_state and cached = "[]" and tool_name = "ascii ''maps_geo''"
      and env = env_tool_on_empty_plan and params = "PDict []", THEN mp, OF h, THEN conjunct1]
  obtain e s' where r: "call_tool env_tool_on_empty_plan (ascii ''maps_geo'') (PDict [])
        connected_state = (Inl e, s')"
    and f: "planning s' = planning connected_state"
      "tool_invocations (trace s') = tool_invocations (trace connected_state)"
    and v: "[] = ([]::Tool list) \<and> (\<exists>w'. session_list_tools env_tool_on_empty_plan
        (world connected_state) = (Inr [], w'))
        \<longrightarrow> e = Error ValueError (unregistered_msg (ascii ''maps_geo''))"
    using t by blast
  have e: "e = Error ValueError (unregistered_msg (ascii ''maps_geo''))"
    using v l by blast
  have sc: "session (client cached_state)"
    "tools_cache (client cached_state) = convert_tools_to_openai_params [weather_tool]"
    "trace cached_state = []"
    by (simp_all add: cached_state_def run_init_def)
  have n: "ascii ''maps_geo'' \<notin> name ` set [weather_tool]"
    by (simp add: weather_tool_def ascii_def)
  have l2: "session_list_tools env_scenario_C (world cached_state) = (Inr [weather_tool], ())"
    by (simp add: env_scenario_C_def)
  have h2: "session (client cached_state)
     \<and> tools_cache (client cached_state) = convert_tools_to_openai_params [weather_tool]
     \<and> ascii ''maps_geo'' \<notin> name ` set [weather_tool]
     \<and> (\<forall>fetched w'. session_list_tools env_scenario_C (world cached_state)
             = (Inr fetched, w') \<longrightarrow> ascii ''maps_geo'' \<notin> name ` set fetched)"
    using sc n l2 by simp
  note t2 = unregistered_tool_never_invoked[where s = cached_state and cached = "[weather_tool]"
      and tool_name = "ascii ''maps_geo''" and env = env_scenario_C and params = "PDict []",
      THEN mp, OF h2, THEN conjunct1]
  obtain e2 s2 where r2: "call_tool env_scenario_C (ascii ''maps_geo'') (PDict [])
        cached_state = (Inl e2, s2)"
    and f2: "tool_invocations (trace s2) = tool_invocations (trace cached_state)"
      "trace s2 = trace cached_state @ (if [weather_tool] = [] then [SessionListTools] else [])"
    using t2 by blast
  show ?thesis using r f e se r2 f2 sc by simp
qed

section \<open>Claims about the rounds and the tools\<close>

lemma tool_reply_asks:
  "\<forall>messages w. \<exists>w'.
     chat_completions_create (scripted_env plan_reply (Inr (tool_reply calls)) other_reply
        catalog loads) messages (Some tools) w = (Inr (tool_reply calls), w')"
  by simp

lemma scripted_env_catalog:
  "\<forall>w. \<exists>w'. session_list_tools (scripted_env plan_reply round_reply other_reply catalog loads) w
     = (Inr catalog, w')"
  by simp

text \<open>
  Claim C5 says that with an empty plan the loop finalizes at once and no tool is
  called. With an empty plan the first round still asks the model, with the tools on
  offer; here the model asks for the weather tool. The event of the tool call is
  yielded, the tool client requests the list of tools from the session, and the run ends
  with the error of that call: no final answer is requested. This is so when the session
  lists no tool, and also when it lists the weather tool.
\<close>

theorem empty_plan_tool_request_not_finalized:
  "steps_from_text (content (plain_reply [])) = []
   \<and> fst (run env_tool_on_empty_plan [] [] ())
       = Inl (Error ValueError (unregistered_msg (ascii ''maps_weather'')))
   \<and> trace (snd (run env_tool_on_empty_plan [] [] ())) =
       [LLMRequest [(role_system, prompt_intro), (role_user, [])] None,
        Yield plan_header, Yield (Planning_str (Planning_init [])), Yield separator,
        SessionOpen, SessionInitialize, Yield separator, Yield (ascii ''None''),
        LLMRequest [(role_user, Planning_str (Planning_init []))] (Some []),
        Yield (tool_event (ascii ''maps_weather'') weather_args), SessionListTools,
        SessionClose]
   \<and> fst (run env_listed_tool_on_empty_plan [] [] ()) = Inl (key_error (ascii ''name''))
   \<and> trace (snd (run env_listed_tool_on_empty_plan [] [] ()))
       = trace (snd (run env_tool_on_empty_plan [] [] ()))"
proof -
  have e: "steps_from_text (content (plain_reply [])) = []"
    by (simp add: steps_from_text_def strip_def strip_by_def)
  have p: "set_plan_steps_from_text [] (Planning_init []) = Planning_init []"
    using e by (intro empty_plan_is_init) simp
  have c: "str_of_step (get_current_step (Planning_init [])) = ascii ''None''"
    by (simp add: str_of_step_def get_current_step_def Planning_init_def)
  have plan: "chat_completions_create env_tool_on_empty_plan
        [(role_system, prompt_intro), (role_user, [])] None () = (Inr (plain_reply []), ())"
    by (simp add: env_tool_on_empty_plan_def)
  have opens: "session_opens env_tool_on_empty_plan"
    unfolding env_tool_on_empty_plan_def by (rule scripted_env_opens)
  have asks: "\<forall>messages w. \<exists>w'. chat_completions_create env_tool_on_empty_plan messages
      (Some []) w = (Inr (tool_reply [(ascii ''maps_weather'', weather_args)]), w')"
    unfolding env_tool_on_empty_plan_def by (rule tool_reply_asks)
  have js: "json_loads env_tool_on_empty_plan weather_args
      = Inr (PDict [(ascii ''city'', PStr [19978, 28023])])"
    by (simp add: env_tool_on_empty_plan_def loads_demo_weather)
  have cat: "\<forall>w. \<exists>w'. session_list_tools env_tool_on_empty_plan w = (Inr [], w')"
    unfolding env_tool_on_empty_plan_def by (rule scripted_env_catalog)
  note r = run_first_tool_request[OF prompt_without_tools plan opens asks
      tool_reply_fields(1) tool_reply_fields(2) js cat]
  have plan': "chat_completions_create env_listed_tool_on_empty_plan
        [(role_system, prompt_intro), (role_user, [])] None () = (Inr (plain_reply []), ())"
    by (simp add: env_listed_tool_on_empty_plan_def)
  have opens': "session_opens env_listed_tool_on_empty_plan"
    unfolding env_listed_tool_on_empty_plan_def by (rule scripted_env_opens)
  have asks': "\<forall>messages w. \<exists>w'. chat_completions_create env_listed_tool_on_empty_plan
      messages (Some []) w = (Inr (tool_reply [(ascii ''maps_weather'', weather_args)]), w')"
    unfolding env_listed_tool_on_empty_plan_def by (rule tool_reply_asks)
  have js': "json_loads env_listed_tool_on_empty_plan weather_args
      = Inr (PDict [(ascii ''city'', PStr [19978, 28023])])"
    by (simp add: env_listed_tool_on_empty_plan_def loads_demo_weather)
  have cat': "\<forall>w. \<exists>w'. session_list_tools env_listed_tool_on_empty_plan w
      = (Inr [weather_tool], w')"
    unfolding env_listed_tool_on_empty_plan_def by (rule scripted_env_catalog)
  note r' = run_first_tool_request[OF prompt_without_tools plan' opens' asks'
      tool_reply_fields(1) tool_reply_fields(2) js' cat']
  have 1: "fst (run env_tool_on_empty_plan [] [] ())
       = Inl (Error ValueError (unregistered_msg (ascii ''maps_weather'')))"
    using r(1) by simp
  have 2: "trace (snd (run env_tool_on_empty_plan [] [] ())) =
       [LLMRequest [(role_system, prompt_intro), (role_user, [])] None,
        Yield plan_header, Yield (Planning_str (Planning_init [])), Yield separator,
        SessionOpen, SessionInitialize, Yield separator, Yield (ascii ''None''),
        LLMRequest [(role_user, Planning_str (Planning_init []))] (Some []),
        Yield (tool_event (ascii ''maps_weather'') weather_args), SessionListTools,
        SessionClose]"
    using r(2) by (simp add: p c)
  have 3: "fst (run env_listed_tool_on_empty_plan [] [] ()) = Inl (key_error (ascii ''name''))"
    using r'(1) by simp
  have 4: "trace (snd (run env_listed_tool_on_empty_plan [] [] ()))
       = trace (snd (run env_tool_on_empty_plan [] [] ()))"
    unfolding r(2) r'(2) by simp
  show ?thesis by (intro conjI) (rule e, rule 1, rule 2, rule 3, rule 4)
qed

text \<open>
  Claim C5, amended. When the text of the plan gives no step, the session opens, and the
  model answers every request without asking for a tool, the run is exactly: the request
  of the plan, the three lines of the plan, the opening of the session, one round that
  announces the step \<^verbatim>\<open>None\<close> and asks the model with the tools, the line that there is
  no next step, the request of the final answer, the closing of the session, and the
  answer if it is not empty. The final request is built from the plan without
  observations, which prints the placeholder line; one round is executed, no tool is
  invoked and no observation is appended.
\<close>

theorem empty_plan_finalizes_after_one_round:
  "build_system_prompt_with_tools env tools = Inr planning_prompt
     \<and> chat_completions_create env
          [(role_system, planning_prompt), (role_user, user_input)] None w
        = (Inr planning_result, w1)
     \<and> steps_from_text (content planning_result) = []
     \<and> session_opens env \<and> replies_without_tool_request env
   \<longrightarrow> (\<exists>final_answer.
         trace (snd (run env tools user_input w)) =
           [LLMRequest [(role_system, planning_prompt), (role_user, user_input)] None,
            Yield plan_header, Yield (Planning_str (Planning_init user_input)), Yield separator,
            SessionOpen, SessionInitialize,
            Yield separator, Yield (ascii ''None''),
            LLMRequest [(role_user, Planning_str (Planning_init user_input))] (Some tools),
            Yield no_next_step_msg,
            LLMRequest [(role_user, final_request (Planning_str (Planning_init user_input)))] None,
            SessionClose]
           @ (if final_answer = [] then [] else [Yield (final_answer_event final_answer)])
         \<and> fst (run env tools user_input w)
             = (if final_answer = [] then Inl (Error LLMInvokeError exhausted_msg) else Inr ()))
       \<and> rounds (snd (run env tools user_input w)) = 1
       \<and> info_list (planning (snd (run env tools user_input w))) = []
       \<and> tool_invocations (trace (snd (run env tools user_input w))) = []
       \<and> Planning_str (Planning_init user_input)
           = requirement_label @ user_input @ [newline] @ info_label @ none_line
             @ next_label @ unset_label"
proof (intro impI, elim conjE)
  assume prompt: "build_system_prompt_with_tools env tools = Inr planning_prompt"
    and plan: "chat_completions_create env
        [(role_system, planning_prompt), (role_user, user_input)] None w = (Inr planning_result, w1)"
    and empty: "steps_from_text (content planning_result) = []"
    and opens: "session_opens env"
    and quiet: "replies_without_tool_request env"
  obtain final_answer where
    t: "trace (snd (run env tools user_input w)) =
           [LLMRequest [(role_system, planning_prompt), (role_user, user_input)] None,
            Yield plan_header, Yield (Planning_str (Planning_init user_input)), Yield separator,
            SessionOpen, SessionInitialize,
            Yield separator, Yield (ascii ''None''),
            LLMRequest [(role_user, Planning_str (Planning_init user_input))] (Some tools),
            Yield no_next_step_msg,
            LLMRequest [(role_user, final_request (Planning_str (Planning_init user_input)))] None,
            SessionClose]
           @ (if final_answer = [] then [] else [Yield (final_answer_event final_answer)])"
    and f: "fst (run env tools user_input w)
             = (if final_answer = [] then Inl (Error LLMInvokeError exhausted_msg) else Inr ())"
    and r: "rounds (snd (run env tools user_input w)) = 1"
    using run_with_empty_plan[OF prompt plan empty opens quiet] by blast
  note n = run_never_invokes[of env tools user_input w]
  show "(\<exists>final_answer.
         trace (snd (run env tools user_input w)) =
           [LLMRequest [(role_system, planning_prompt), (role_user, user_input)] None,
            Yield plan_header, Yield (Planning_str (Planning_init user_input)), Yield separator,
            SessionOpen, SessionInitialize,
            Yield separator, Yield (ascii ''None''),
            LLMRequest [(role_user, Planning_str (Planning_init user_input))] (Some tools),
            Yield no_next_step_msg,
            LLMRequest [(role_user, final_request (Planning_str (Planning_init user_input)))] None,
            SessionClose]
           @ (if final_answer = [] then [] else [Yield (final_answer_event final_answer)])
         \<and> fst (run env tools user_input w)
             = (if final_answer = [] then Inl (Error LLMInvokeError exhausted_msg) else Inr ()))
       \<and> rounds (snd (run env tools user_input w)) = 1
       \<and> info_list (planning (snd (run env tools user_input w))) = []
       \<and> tool_invocations (trace (snd (run env tools user_input w))) = []
       \<and> Planning_str (Planning_init user_input)
           = requirement_label @ user_input @ [newline] @ info_label @ none_line
             @ next_label @ unset_label"
    using t f r n Planning_str_without_plan[of user_input] by blast
qed

text \<open>
  Claim C5, amended, at a run whose plan text is blank and whose model answers in plain
  text.
\<close>

theorem empty_plan_finalizes_after_one_round_witness:
  "rounds (snd (run env_empty_plan [] [] ())) = 1
   \<and> info_list (planning (snd (run env_empty_plan [] [] ()))) = []
   \<and> tool_invocations (trace (snd (run env_empty_plan [] [] ()))) = []
   \<and> LLMRequest [(role_user, final_request (Planning_str (Planning_init [])))] None
       \<in> set (trace (snd (run env_empty_plan [] [] ())))"
proof -
  have plan: "chat_completions_create env_empty_plan
        [(role_system, prompt_intro), (role_user, [])] None () = (Inr (plain_reply [32, 10]), ())"
    by (simp add: env_empty_plan_def)
  have e: "steps_from_text (content (plain_reply [32, 10])) = []"
    by (simp add: steps_from_text_def strip_def strip_by_def isspace_def delimiter_def)
  have opens: "session_opens env_empty_plan"
    unfolding env_empty_plan_def by (rule scripted_env_opens)
  have quiet: "replies_without_tool_request env_empty_plan"
    unfolding env_empty_plan_def by (rule scripted_env_quiet)
  have h: "build_system_prompt_with_tools env_empty_plan [] = Inr prompt_intro
     \<and> chat_completions_create env_empty_plan
          [(role_system, prompt_intro), (role_user, [])] None ()
        = (Inr (plain_reply [32, 10]), ())
     \<and> steps_from_text (content (plain_reply [32, 10])) = []
     \<and> session_opens env_empty_plan \<and> replies_without_tool_request env_empty_plan"
    using prompt_without_tools plan e opens quiet by blast
  note t = empty_plan_finalizes_after_one_round[where env = env_empty_plan and tools = "[]" and user_input = "[]"
      and w = "()" and planning_prompt = prompt_intro
      and planning_result = "plain_reply [32, 10]" and ?w1.0 = "()", THEN mp, OF h]
  obtain final_answer where tr: "trace (snd (run env_empty_plan [] [] ())) =
           [LLMRequest [(role_system, prompt_intro), (role_user, [])] None,
            Yield plan_header, Yield (Planning_str (Planning_init [])), Yield separator,
            SessionOpen, SessionInitialize,
            Yield separator, Yield (ascii ''None''),
            LLMRequest [(role_user, Planning_str (Planning_init []))] (Some []),
            Yield no_next_step_msg,
            LLMRequest [(role_user, final_request (Planning_str (Planning_init [])))] None,
            SessionClose]
           @ (if final_answer = [] then [] else [Yield (final_answer_event final_answer)])"
    using t[THEN conjunct1] by blast
  have m: "LLMRequest [(role_user, final_request (Planning_str (Planning_init [])))] None
       \<in> set (trace (snd (run env_empty_plan [] [] ())))"
    unfolding tr by simp
  note a = t[THEN conjunct2, THEN conjunct1]
  note b = t[THEN conjunct2, THEN conjunct2, THEN conjunct1]
  note c = t[THEN conjunct2, THEN conjunct2, THEN conjunct2, THEN conjunct1]
  show ?thesis by (intro conjI) (rule a, rule b, rule c, rule m)
qed

lemma run_two_requests:
  "fst (run env_two_requests [] [] ()) = Inl (key_error (ascii ''name''))"
  "yields (trace (snd (run env_two_requests [] [] ()))) =
     [plan_header,
      Planning_str (set_plan_steps_from_text scenario_A_text (Planning_init [])),
      separator, separator, [26597, 22825, 27668],
      tool_event (ascii ''maps_weather'') weather_args]"
proof -
  have plan: "chat_completions_create env_two_requests
        [(role_system, prompt_intro), (role_user, [])] None () = (Inr (plain_reply scenario_A_text), ())"
    by (simp add: env_two_requests_def)
  have opens: "session_opens env_two_requests"
    unfolding env_two_requests_def by (rule scripted_env_opens)
  have asks: "\<forall>messages w. \<exists>w'. chat_completions_create env_two_requests messages
      (Some []) w = (Inr (tool_reply [(ascii ''maps_weather'', weather_args),
         (ascii ''maps_geo'', geo_args)]), w')"
    unfolding env_two_requests_def by (rule tool_reply_asks)
  have js: "json_loads env_two_requests weather_args
      = Inr (PDict [(ascii ''city'', PStr [19978, 28023])])"
    by (simp add: env_two_requests_def loads_demo_weather)
  have cat: "\<forall>w. \<exists>w'. session_list_tools env_two_requests w = (Inr [weather_tool, geo_tool], w')"
    unfolding env_two_requests_def by (rule scripted_env_catalog)
  note r = run_first_tool_request[OF prompt_without_tools plan opens asks
      tool_reply_fields(1) tool_reply_fields(2) js cat]
  have c: "str_of_step (get_current_step (set_plan_steps_from_text scenario_A_text
      (Planning_init []))) = [26597, 22825, 27668]"
    by (simp add: scenario_A_plan str_of_step_def get_current_step_def)
  show "fst (run env_two_requests [] [] ()) = Inl (key_error (ascii ''name''))"
    using r(1) by simp
  show "yields (trace (snd (run env_two_requests [] [] ()))) =
     [plan_header,
      Planning_str (set_plan_steps_from_text scenario_A_text (Planning_init [])),
      separator, separator, [26597, 22825, 27668],
      tool_event (ascii ''maps_weather'') weather_args]"
    using r(2) c by simp
qed

lemma run_scenario_C:
  "fst (run env_scenario_C [] [] ()) = Inl (key_error (ascii ''name''))"
proof -
  have plan: "chat_completions_create env_scenario_C
        [(role_system, prompt_intro), (role_user, [])] None () = (Inr (plain_reply scenario_A_text), ())"
    by (simp add: env_scenario_C_def)
  have opens: "session_opens env_scenario_C"
    unfolding env_scenario_C_def by (rule scripted_env_opens)
  have asks: "\<forall>messages w. \<exists>w'. chat_completions_create env_scenario_C messages
      (Some []) w = (Inr (tool_reply [(ascii ''maps_weather'', weather_args)]), w')"
    unfolding env_scenario_C_def by (rule tool_reply_asks)
  have js: "json_loads env_scenario_C weather_args
      = Inr (PDict [(ascii ''city'', PStr [19978, 28023])])"
    by (simp add: env_scenario_C_def loads_demo_weather)
  have cat: "\<forall>w. \<exists>w'. session_list_tools env_scenario_C w = (Inr [weather_tool], w')"
    unfolding env_scenario_C_def by (rule scripted_env_catalog)
  note r = run_first_tool_request[OF prompt_without_tools plan opens asks
      tool_reply_fields(1) tool_reply_fields(2) js cat]
  show ?thesis using r(1) by simp
qed

text \<open>
  Claim C7 against the code. The cache of the tool client holds converted descriptors,
  which have no key \<^verbatim>\<open>name\<close> at the top, so the lookup of the registered names
  fails. Whenever a reply holds tool calls, the event of the first call is yielded and
  the run ends there: the tool is not invoked, no observation is appended, and the
  calls after the first get no event. So in every run no tool is invoked and no
  observation is appended. With a healthy model and session and a reply that asks for
  two registered tools, the run ends with \<^verbatim>\<open>KeyError\<close> after the event of the first
  call.
\<close>

theorem tool_request_ends_run_without_invocation:
  "(tools_cache (client s) = convert_tools_to_openai_params cached \<longrightarrow>
      (\<exists>e s'. tool_calls_loop env ((function_name, function_args) # rest) s = (Inl e, s')
         \<and> info_list (planning s') = info_list (planning s)
         \<and> tool_invocations (trace s') = tool_invocations (trace s)
         \<and> yields (trace s') = yields (trace s) @ [tool_event function_name function_args]))
   \<and> tool_invocations (trace (snd (run env tools user_input w))) = []
   \<and> info_list (planning (snd (run env tools user_input w))) = []
   \<and> fst (run env_two_requests [] [] ()) = Inl (key_error (ascii ''name''))
   \<and> yields (trace (snd (run env_two_requests [] [] ()))) =
       [plan_header,
        Planning_str (set_plan_steps_from_text scenario_A_text (Planning_init [])),
        separator, separator, [26597, 22825, 27668],
        tool_event (ascii ''maps_weather'') weather_args]"
proof -
  have 1: "tools_cache (client s) = convert_tools_to_openai_params cached \<longrightarrow>
      (\<exists>e s'. tool_calls_loop env ((function_name, function_args) # rest) s = (Inl e, s')
         \<and> info_list (planning s') = info_list (planning s)
         \<and> tool_invocations (trace s') = tool_invocations (trace s)
         \<and> yields (trace s') = yields (trace s) @ [tool_event function_name function_args])"
  proof
    assume c: "tools_cache (client s) = convert_tools_to_openai_params cached"
    obtain e s' where
      "tool_calls_loop env ((function_name, function_args) # rest) s = (Inl e, s')"
      "planning s' = planning s" "tool_invocations (trace s') = tool_invocations (trace s)"
      "yields (trace s') = yields (trace s) @ [tool_event function_name function_args]"
      using tool_calls_loop_converted[OF c, of env function_name function_args rest] by blast
    then show "\<exists>e s'. tool_calls_loop env ((function_name, function_args) # rest) s = (Inl e, s')
         \<and> info_list (planning s') = info_list (planning s)
         \<and> tool_invocations (trace s') = tool_invocations (trace s)
         \<and> yields (trace s') = yields (trace s) @ [tool_event function_name function_args]"
      by auto
  qed
  note n = run_never_invokes[of env tools user_input w]
  show ?thesis
    by (intro conjI) (rule 1, rule n[THEN conjunct1], rule n[THEN conjunct2],
        rule run_two_requests(1), rule run_two_requests(2))
qed

text \<open>
  Claim C7 against the code, at scenario C: one request for the weather tool, which the
  session lists.
\<close>

theorem tool_request_ends_run_without_invocation_witness:
  "fst (run env_scenario_C [] [] ()) = Inl (key_error (ascii ''name''))
   \<and> tool_invocations (trace (snd (run env_scenario_C [] [] ()))) = []
   \<and> info_list (planning (snd (run env_scenario_C [] [] ()))) = []
   \<and> fst (tool_calls_loop env_scenario_C [(ascii ''maps_weather'', weather_args)] cached_state)
       = Inl (key_error (ascii ''name''))"
proof -
  have c: "tools_cache (client cached_state) = convert_tools_to_openai_params [weather_tool]"
    by (simp add: cached_state_def)
  note t = tool_request_ends_run_without_invocation[where env = env_scenario_C and tools = "[]" and user_input = "[]"
      and w = "()" and s = cached_state and cached = "[weather_tool]"
      and function_name = "ascii ''maps_weather''" and function_args = weather_args
      and rest = "[]"]
  note a = t[THEN conjunct2, THEN conjunct1]
  note b = t[THEN conjunct2, THEN conjunct2, THEN conjunct1]
  obtain e s' where l: "tool_calls_loop env_scenario_C [(ascii ''maps_weather'', weather_args)]
      cached_state = (Inl e, s')"
    using t[THEN conjunct1, THEN mp, OF c] by blast
  have se: "session (client (emit (Yield (tool_event (ascii ''maps_weather'') weather_args))
      cached_state))"
    by (simp add: cached_state_def)
  have ce: "tools_cache (client (emit (Yield (tool_event (ascii ''maps_weather'') weather_args))
      cached_state)) = convert_tools_to_openai_params [weather_tool]"
    by (simp add: cached_state_def)
  have js: "json_loads env_scenario_C weather_args
      = Inr (PDict [(ascii ''city'', PStr [19978, 28023])])"
    by (simp add: env_scenario_C_def loads_demo_weather)
  have "tool_calls_loop env_scenario_C [(ascii ''maps_weather'', weather_args)] cached_state
      = (Inl (key_error (ascii ''name'')),
         emit (Yield (tool_event (ascii ''maps_weather'') weather_args)) cached_state)"
    using js call_tool_cached[OF se ce, of env_scenario_C] by (simp add: Let_def)
  then have d: "fst (tool_calls_loop env_scenario_C [(ascii ''maps_weather'', weather_args)]
      cached_state) = Inl (key_error (ascii ''name''))"
    using l by simp
  show ?thesis by (intro conjI) (rule run_scenario_C, rule a, rule b, rule d)
qed

end
